theory Spec2Isabelle
  imports Main
begin

section \<open>Python values used by the cog\<close>

text \<open>
  Strings are \<open>string\<close>; one \<open>char\<close> stands for one character of the Python string.
  The three emoji of the source are kept as the byte sequences of their UTF-8 encoding and
  are only ever concatenated, never sliced.
\<close>

definition digit_char :: "nat \<Rightarrow> char" where
  "digit_char d = ''0123456789'' ! d"

text \<open>\<open>str(n)\<close> for an int: decimal digits, a minus sign for a negative number.\<close>

fun str_nat :: "nat \<Rightarrow> string" where
  "str_nat n = (if n < 10 then [digit_char n] else str_nat (n div 10) @ [digit_char (n mod 10)])"

declare str_nat.simps [simp del]

definition str_int :: "int \<Rightarrow> string" where
  "str_int i = (if i < 0 then CHR ''-'' # str_nat (nat (- i)) else str_nat (nat i))"

text \<open>
  \<open>s.replace(old, new)\<close>: every non-overlapping occurrence of \<open>old\<close>, found from the
  left, is replaced. With an empty \<open>old\<close> Python puts \<open>new\<close> before every character and
  at the end.
\<close>

function py_replace :: "string \<Rightarrow> string \<Rightarrow> string \<Rightarrow> string" where
  "py_replace s old new =
     (if old = [] then new @ concat (map (\<lambda>c. c # new) s)
      else if s = [] then []
      else if take (length old) s = old then new @ py_replace (drop (length old) s) old new
      else hd s # py_replace (tl s) old new)"
  by pat_completeness auto
termination
  by (relation "measure (\<lambda>(s, old, new). length s)") auto

declare py_replace.simps [simp del]

text \<open>A decoded JSON value. A JSON object is the list of the items of the Python dict.\<close>

datatype json =
    JNull
  | JBool bool
  | JInt int
  | JFloat string
  | JString string
  | JArray "json list"
  | JObject "(string \<times> json) list"

text \<open>
  The exception classes the \<open>except\<close> clauses of the source tell apart, in the order of
  the clauses: \<open>asyncio.TimeoutError\<close>, \<open>aiohttp.ClientError\<close>, any other subclass of
  \<open>Exception\<close>, and the classes that derive from \<open>BaseException\<close> only (task
  cancellation, interpreter exit), which \<open>except Exception\<close> does not catch.
  An exception carries \<open>str(e)\<close>.
\<close>

datatype exc_class = TimeoutError | ClientError | OtherException | BaseOnly

datatype pyexn = Exn exc_class string

fun exc_class_of :: "pyexn \<Rightarrow> exc_class" where
  "exc_class_of (Exn c s) = c"

fun exc_str :: "pyexn \<Rightarrow> string" where
  "exc_str (Exn c s) = s"

definition is_Exception :: "pyexn \<Rightarrow> bool" where
  "is_Exception e = (exc_class_of e \<noteq> BaseOnly)"

definition quoted :: "string \<Rightarrow> string" where
  "quoted s = [CHR 0x27] @ s @ [CHR 0x27]"

definition AttributeError :: "string \<Rightarrow> string \<Rightarrow> pyexn" where
  "AttributeError ty attr =
     Exn OtherException (quoted ty @ '' object has no attribute '' @ quoted attr)"

fun type_name :: "json \<Rightarrow> string" where
  "type_name JNull = ''NoneType''"
| "type_name (JBool b) = ''bool''"
| "type_name (JInt i) = ''int''"
| "type_name (JFloat f) = ''float''"
| "type_name (JString s) = ''str''"
| "type_name (JArray xs) = ''list''"
| "type_name (JObject kvs) = ''dict''"

text \<open>\<open>result.get(key, default)\<close>: only a dict has the method.\<close>

fun json_get :: "json \<Rightarrow> string \<Rightarrow> json \<Rightarrow> pyexn + json" where
  "json_get (JObject kvs) k d = Inr (case map_of kvs k of None \<Rightarrow> d | Some v \<Rightarrow> v)"
| "json_get j k d = Inl (AttributeError (type_name j) ''get'')"

section \<open>The objects of the host\<close>

record asset =
  asset_url :: string

text \<open>
  A user: \<open>user_str\<close> is \<open>str(user)\<close>; \<open>avatar\<close> is \<open>None\<close> when the user has set no
  avatar of their own.
\<close>

record user =
  user_id :: int
  user_str :: string
  user_bot :: bool
  avatar :: "asset option"
  default_avatar :: asset

record attachment =
  att_url :: string
  att_filename :: string
  att_content_type :: "string option"
  att_size :: int

text \<open>\<open>msg_channel_is_dm\<close> is \<open>isinstance(message.channel, discord.DMChannel)\<close>.\<close>

record message =
  msg_author :: user
  msg_channel_is_dm :: bool
  msg_content :: string
  msg_id :: int
  msg_attachments :: "attachment list"

text \<open>
  What the listener reads of the bot: \<open>ctx_valid m\<close> is \<open>(await bot.get_context(m)).valid\<close>;
  \<open>blocked_users\<close> is \<open>None\<close> when the bot has no such attribute.
\<close>

record host =
  ctx_valid :: "message \<Rightarrow> bool"
  blocked_users :: "int set option"

record invocation =
  ctx_author :: user
  ctx_message_id :: int

section \<open>The state of the cog and what it does to the outside\<close>

record client_session =
  closed :: bool

record cog =
  session :: "client_session option"
  webhook_url :: string
  webhook_secret :: string

record http_response =
  status :: int
  json_outcome :: "pyexn + json"
  text_outcome :: "pyexn + string"

text \<open>
  What a call of \<open>session.post\<close> or \<open>session.get\<close> does: it raises, or it yields a
  response, whose \<open>json()\<close> and \<open>text()\<close> again raise or return.
\<close>

type_synonym transport = "pyexn + http_response"

record deliver_args =
  discord_user_id :: string
  discord_username :: string
  content :: string
  discord_avatar_url :: "string option"
  discord_message_id :: "string option"
  attachments :: "json list option"


text \<open>
  One constructor for each call of the logger in the source, with the values its message
  interpolates:
  \<^item> \<open>SessionNotInitialized\<close>: \<open>logger.error("HTTP session not initialized")\<close>
  \<^item> \<open>UrlNotConfigured\<close>: \<open>logger.warning("Dashboard webhook URL not configured")\<close>
  \<^item> \<open>Forwarded user ticket\<close>:
    \<open>logger.info(f"Successfully forwarded DM to dashboard: user={user}, ticket={ticket}")\<close>
  \<^item> \<open>BadStatus status error_text\<close>:
    \<open>logger.error(f"Dashboard webhook failed with status {status}: {error_text}")\<close>
  \<^item> \<open>TimedOut\<close>: \<open>logger.error("Dashboard webhook request timed out")\<close>
  \<^item> \<open>RequestFailed e\<close>: \<open>logger.error(f"Dashboard webhook request failed: {e}")\<close>
  \<^item> \<open>UnexpectedError e\<close>:
    \<open>logger.error(f"Unexpected error sending to dashboard: {e}", exc_info=True)\<close>
  \<^item> \<open>ForwardFailed author id\<close>:
    \<open>logger.warning(f"Failed to forward DM to dashboard from {author} (ID: {id})")\<close>
\<close>

datatype log_call =
    SessionNotInitialized
  | UrlNotConfigured
  | Forwarded string json
  | BadStatus int string
  | TimedOut
  | RequestFailed string
  | UnexpectedError string
  | ForwardFailed string int



record embed_field =
  field_name :: string
  field_value :: string
  inline :: bool

record embed =
  title :: string
  color :: int
  timestamp :: int
  embed_fields :: "embed_field list"

text \<open>
  The trace of a handler: \<open>Deliver\<close> marks a call of \<open>send_to_dashboard\<close> with its
  arguments, \<open>HttpPost url payload headers timeout\<close> a call of \<open>session.post\<close>,
  \<open>HttpGet url timeout\<close> a call of \<open>session.get\<close>, \<open>Log\<close> a call of the logger,
  \<open>CtxSend\<close> and \<open>CtxSendEmbed\<close> a reply to the invoker of a command.
\<close>

datatype event =
    Deliver deliver_args
  | HttpPost string json "(string \<times> string) list" nat
  | HttpGet string nat
  | Log log_call
  | CtxSend string
  | CtxSendEmbed embed

section \<open>The cog\<close>

definition default_webhook_url :: string where
  "default_webhook_url =
     ''https://qlnbergwjfrmgkjhrbkj.supabase.co/functions/v1/discord-modmail-webhook''"

definition config_get :: "(string \<rightharpoonup> string) \<Rightarrow> string \<Rightarrow> string \<Rightarrow> string" where
  "config_get config k d = (case config k of None \<Rightarrow> d | Some v \<Rightarrow> v)"

definition init :: "(string \<rightharpoonup> string) \<Rightarrow> cog" where
  "init config =
     \<lparr>session = None,
      webhook_url = config_get config ''dashboard_webhook_url'' default_webhook_url,
      webhook_secret = config_get config ''dashboard_webhook_secret'' ''''\<rparr>"

definition cog_load :: "cog \<Rightarrow> cog" where
  "cog_load c = c\<lparr>session := Some \<lparr>closed = False\<rparr>\<rparr>"

definition cog_unload :: "cog \<Rightarrow> cog" where
  "cog_unload c =
     (case session c of None \<Rightarrow> c | Some s \<Rightarrow> c\<lparr>session := Some (s\<lparr>closed := True\<rparr>)\<rparr>)"

definition get_avatar_url :: "user \<Rightarrow> string option" where
  "get_avatar_url u =
     (case avatar u of Some a \<Rightarrow> Some (asset_url a)
      | None \<Rightarrow> Some (asset_url (default_avatar u)))"

text \<open>\<open>x or d\<close> on an optional string: \<open>None\<close> and the empty string are both falsy.\<close>

definition or_default :: "string option \<Rightarrow> string \<Rightarrow> string" where
  "or_default x d = (case x of None \<Rightarrow> d | Some s \<Rightarrow> if s = [] then d else s)"

definition format_attachment :: "attachment \<Rightarrow> json" where
  "format_attachment att =
     JObject [(''url'', JString (att_url att)),
              (''filename'', JString (att_filename att)),
              (''content_type'',
                 JString (or_default (att_content_type att) ''application/octet-stream'')),
              (''size'', JInt (att_size att))]"

definition format_attachments :: "attachment list \<Rightarrow> json list" where
  "format_attachments atts = map format_attachment atts"

definition json_opt_string :: "string option \<Rightarrow> json" where
  "json_opt_string x = (case x of None \<Rightarrow> JNull | Some s \<Rightarrow> JString s)"

definition payload :: "deliver_args \<Rightarrow> json" where
  "payload a =
     JObject [(''discord_user_id'', JString (discord_user_id a)),
              (''discord_username'', JString (discord_username a)),
              (''content'', JString (content a)),
              (''discord_avatar_url'', json_opt_string (discord_avatar_url a)),
              (''discord_message_id'', json_opt_string (discord_message_id a)),
              (''attachments'',
                 JArray (case attachments a of None \<Rightarrow> [] | Some xs \<Rightarrow> xs))]"

definition headers :: "cog \<Rightarrow> (string \<times> string) list" where
  "headers c = [(''Content-Type'', ''application/json''),
                (''X-Webhook-Secret'', webhook_secret c)]"

text \<open>
  The body of the \<open>async with\<close> block of \<open>send_to_dashboard\<close>, given the response:
  \<open>Inl\<close> is an exception that leaves the block.
\<close>

definition on_response :: "deliver_args \<Rightarrow> http_response \<Rightarrow> (pyexn + bool) \<times> event list" where
  "on_response a r =
     (if status r = 200 then
        (case json_outcome r of
           Inl e \<Rightarrow> (Inl e, [])
         | Inr result \<Rightarrow>
             (case json_get result ''ticket_id'' (JString ''unknown'') of
                Inl e \<Rightarrow> (Inl e, [])
              | Inr ticket \<Rightarrow> (Inr True, [Log (Forwarded (discord_username a) ticket)])))
      else
        (case text_outcome r of
           Inl e \<Rightarrow> (Inl e, [])
         | Inr error_text \<Rightarrow> (Inr False, [Log (BadStatus (status r) error_text)])))"

text \<open>The \<open>try\<close> block: the call of \<open>session.post\<close> and the body above.\<close>

definition try_post :: "cog \<Rightarrow> deliver_args \<Rightarrow> transport \<Rightarrow> (pyexn + bool) \<times> event list" where
  "try_post c a env =
     (let req = HttpPost (webhook_url c) (payload a) (headers c) 10 in
      case env of
        Inl e \<Rightarrow> (Inl e, [req])
      | Inr r \<Rightarrow> (case on_response a r of (res, evs) \<Rightarrow> (res, req # evs)))"

text \<open>The three \<open>except\<close> clauses, in their order; anything else goes on to the caller.\<close>

fun handler :: "pyexn \<Rightarrow> (pyexn + bool) \<times> event list" where
  "handler (Exn TimeoutError s) = (Inr False, [Log TimedOut])"
| "handler (Exn ClientError s) = (Inr False, [Log (RequestFailed s)])"
| "handler (Exn OtherException s) = (Inr False, [Log (UnexpectedError s)])"
| "handler (Exn BaseOnly s) = (Inl (Exn BaseOnly s), [])"

definition send_to_dashboard ::
  "cog \<Rightarrow> deliver_args \<Rightarrow> transport \<Rightarrow> (pyexn + bool) \<times> event list" where
  "send_to_dashboard c a env =
     (if session c = None then (Inr False, [Deliver a, Log SessionNotInitialized])
      else if webhook_url c = [] then (Inr False, [Deliver a, Log UrlNotConfigured])
      else
        (case try_post c a env of
           (Inr b, evs) \<Rightarrow> (Inr b, Deliver a # evs)
         | (Inl e, evs) \<Rightarrow>
             (case handler e of (res, evs') \<Rightarrow> (res, Deliver a # evs @ evs'))))"

definition is_blocked :: "host \<Rightarrow> message \<Rightarrow> bool" where
  "is_blocked h m =
     (case blocked_users h of None \<Rightarrow> False | Some B \<Rightarrow> user_id (msg_author m) \<in> B)"

definition message_args :: "message \<Rightarrow> deliver_args" where
  "message_args m =
     \<lparr>discord_user_id = str_int (user_id (msg_author m)),
      discord_username = user_str (msg_author m),
      content = (if msg_content m = [] then ''(No text content)'' else msg_content m),
      discord_avatar_url = get_avatar_url (msg_author m),
      discord_message_id = Some (str_int (msg_id m)),
      attachments = Some (format_attachments (msg_attachments m))\<rparr>"

definition on_message ::
  "cog \<Rightarrow> host \<Rightarrow> message \<Rightarrow> transport \<Rightarrow> (pyexn + unit) \<times> event list" where
  "on_message c h m env =
     (if user_bot (msg_author m) then (Inr (), [])
      else if \<not> msg_channel_is_dm m then (Inr (), [])
      else if ctx_valid h m then (Inr (), [])
      else if is_blocked h m then (Inr (), [])
      else
        (case send_to_dashboard c (message_args m) env of
           (Inl e, evs) \<Rightarrow> (Inl e, evs)
         | (Inr success, evs) \<Rightarrow>
             (Inr (),
              evs @ (if \<not> success
                     then [Log (ForwardFailed (user_str (msg_author m)) (user_id (msg_author m)))]
                     else []))))"

definition yes_text :: string where
  "yes_text = [CHR 0xE2, CHR 0x9C, CHR 0x85] @ '' Yes''"

definition no_text :: string where
  "no_text = [CHR 0xE2, CHR 0x9D, CHR 0x8C] @ '' No''"

definition reachable_text :: string where
  "reachable_text = [CHR 0xE2, CHR 0x9C, CHR 0x85] @ '' Endpoint reachable''"

definition status_text :: "int \<Rightarrow> string" where
  "status_text s =
     [CHR 0xE2, CHR 0x9A, CHR 0xA0, CHR 0xEF, CHR 0xB8, CHR 0x8F] @ '' Status '' @ str_int s"

definition failed_text :: "pyexn \<Rightarrow> string" where
  "failed_text e = [CHR 0xE2, CHR 0x9D, CHR 0x8C] @ '' Failed: '' @ take 50 (exc_str e)"

definition add_field :: "embed \<Rightarrow> string \<Rightarrow> string \<Rightarrow> bool \<Rightarrow> embed" where
  "add_field em n v i =
     em\<lparr>embed_fields := embed_fields em @ [\<lparr>field_name = n, field_value = v, inline = i\<rparr>]\<rparr>"

definition blurple :: int where
  "blurple = 0x5865F2"

definition health_url :: "string \<Rightarrow> string" where
  "health_url u = py_replace u ''/discord-modmail-webhook'' ''/health''"

text \<open>The embed of \<open>dashboard_status\<close> before the connection test; \<open>now\<close> is the clock.\<close>

definition status_embed :: "cog \<Rightarrow> int \<Rightarrow> embed" where
  "status_embed c now =
     (let e0 = \<lparr>title = ''Dashboard Webhook Status'', color = blurple, timestamp = now,
                embed_fields = []\<rparr>;
          e1 = add_field e0 ''Webhook URL''
                 (if webhook_url c \<noteq> []
                  then replicate 3 (CHR 0x60) @ take 50 (webhook_url c) @ ''...''
                       @ replicate 3 (CHR 0x60)
                  else ''Not configured'') False;
          e2 = add_field e1 ''Secret Configured''
                 (if webhook_secret c \<noteq> [] then yes_text else no_text) True
      in add_field e2 ''Session Active''
           (if (case session c of None \<Rightarrow> False | Some s \<Rightarrow> \<not> closed s)
            then yes_text else no_text) True)"

text \<open>
  The \<open>try\<close> block of \<open>dashboard_status\<close>: \<open>self.session.get\<close> on \<open>None\<close> raises
  \<open>AttributeError\<close> before any request is made.
\<close>

definition try_get :: "cog \<Rightarrow> embed \<Rightarrow> transport \<Rightarrow> (pyexn + embed) \<times> event list" where
  "try_get c em env =
     (case session c of
        None \<Rightarrow> (Inl (AttributeError ''NoneType'' ''get''), [])
      | Some s \<Rightarrow>
          (let req = HttpGet (health_url (webhook_url c)) 5 in
           case env of
             Inl e \<Rightarrow> (Inl e, [req])
           | Inr r \<Rightarrow>
               (if status r = 200
                then (Inr (add_field em ''Connection Test'' reachable_text False), [req])
                else (Inr (add_field em ''Connection Test'' (status_text (status r)) False),
                      [req]))))"

definition dashboard_status ::
  "cog \<Rightarrow> int \<Rightarrow> transport \<Rightarrow> (pyexn + unit) \<times> event list" where
  "dashboard_status c now env =
     (let em = status_embed c now in
      if webhook_url c \<noteq> [] then
        (case try_get c em env of
           (Inr em', evs) \<Rightarrow> (Inr (), evs @ [CtxSendEmbed em'])
         | (Inl e, evs) \<Rightarrow>
             (if is_Exception e
              then (Inr (),
                    evs @ [CtxSendEmbed (add_field em ''Connection Test'' (failed_text e) False)])
              else (Inl e, evs)))
      else (Inr (), [CtxSendEmbed em]))"

definition test_sent_text :: string where
  "test_sent_text =
     [CHR 0xE2, CHR 0x9C, CHR 0x85] @ '' Test message sent to dashboard successfully!''"

definition test_failed_text :: string where
  "test_failed_text =
     [CHR 0xE2, CHR 0x9D, CHR 0x8C]
     @ '' Failed to send test message. Check bot logs for details.''"

text \<open>
  The parameter \<open>message\<close> of \<open>test_dashboard\<close> is \<open>None\<close> when the invoker gave no
  text; the default of the signature is then used.
\<close>

definition test_args :: "invocation \<Rightarrow> string option \<Rightarrow> deliver_args" where
  "test_args ctx message =
     (let msg = (case message of None \<Rightarrow> ''Test message from bot'' | Some s \<Rightarrow> s) in
      \<lparr>discord_user_id = str_int (user_id (ctx_author ctx)),
       discord_username = user_str (ctx_author ctx) @ '' (TEST)'',
       content = ''[TEST] '' @ msg,
       discord_avatar_url = get_avatar_url (ctx_author ctx),
       discord_message_id = Some (str_int (ctx_message_id ctx)),
       attachments = None\<rparr>)"

definition test_dashboard ::
  "cog \<Rightarrow> invocation \<Rightarrow> string option \<Rightarrow> transport \<Rightarrow> (pyexn + unit) \<times> event list" where
  "test_dashboard c ctx message env =
     (case send_to_dashboard c (test_args ctx message) env of
        (Inl e, evs) \<Rightarrow> (Inl e, evs)
      | (Inr success, evs) \<Rightarrow>
          (Inr (), evs @ [CtxSend (if success then test_sent_text else test_failed_text)]))"

text \<open>The calls of \<open>send_to_dashboard\<close>, of \<open>session.post\<close> and of \<open>session.get\<close> in a trace.\<close>

fun is_deliver :: "event \<Rightarrow> bool" where
  "is_deliver (Deliver a) = True"
| "is_deliver e = False"

fun is_http :: "event \<Rightarrow> bool" where
  "is_http (HttpPost u p h t) = True"
| "is_http (HttpGet u t) = True"
| "is_http e = False"

definition deliver_calls :: "event list \<Rightarrow> nat" where
  "deliver_calls evs = length (filter is_deliver evs)"

definition http_calls :: "event list \<Rightarrow> event list" where
  "http_calls evs = filter is_http evs"

text \<open>The embeds that a trace sends to the invoker, in order.\<close>

fun sent_embeds :: "event list \<Rightarrow> embed list" where
  "sent_embeds [] = []"
| "sent_embeds (CtxSendEmbed em # evs) = em # sent_embeds evs"
| "sent_embeds (ev # evs) = sent_embeds evs"

text \<open>
  The exceptions a transport can raise: at the request itself, or at \<open>json()\<close> or
  \<open>text()\<close> of its response. \<open>transport_faults\<close> says that all of them are instances of
  \<open>Exception\<close>, as every failure of the network layer is; cancellation of the task by the
  host and the exit of the interpreter are not.
\<close>

fun outcome_faults :: "pyexn + 'a \<Rightarrow> pyexn list" where
  "outcome_faults (Inl e) = [e]"
| "outcome_faults (Inr x) = []"

fun env_faults :: "transport \<Rightarrow> pyexn list" where
  "env_faults (Inl e) = [e]"
| "env_faults (Inr r) = outcome_faults (json_outcome r) @ outcome_faults (text_outcome r)"

definition transport_faults :: "transport \<Rightarrow> bool" where
  "transport_faults env = list_all is_Exception (env_faults env)"

text \<open>The log call of the \<open>except\<close> clause that catches an exception of a class.\<close>

fun fault_log :: "pyexn \<Rightarrow> log_call" where
  "fault_log (Exn TimeoutError s) = TimedOut"
| "fault_log (Exn ClientError s) = RequestFailed s"
| "fault_log (Exn c s) = UnexpectedError s"

text \<open>The field of a JSON object, \<open>None\<close> when the value is no object or has no such key.\<close>

fun json_field :: "json \<Rightarrow> string \<Rightarrow> json option" where
  "json_field (JObject kvs) k = map_of kvs k"
| "json_field j k = None"

section \<open>Concrete inputs\<close>

definition alice :: user where
  "alice =
     \<lparr>user_id = 42, user_str = ''alice'', user_bot = False, avatar = None,
      default_avatar = \<lparr>asset_url = ''https://cdn.discordapp.com/embed/avatars/0.png''\<rparr>\<rparr>"

definition bob :: user where
  "bob =
     \<lparr>user_id = 7, user_str = ''bob'', user_bot = False,
      avatar = Some \<lparr>asset_url = ''https://cdn.discordapp.com/avatars/7/b.png''\<rparr>,
      default_avatar = \<lparr>asset_url = ''https://cdn.discordapp.com/embed/avatars/1.png''\<rparr>\<rparr>"

definition photo :: attachment where
  "photo =
     \<lparr>att_url = ''https://cdn.discordapp.com/attachments/1/2/a.png'',
      att_filename = ''a.png'', att_content_type = Some ''image/png'', att_size = 2048\<rparr>"

definition blob :: attachment where
  "blob =
     \<lparr>att_url = ''https://cdn.discordapp.com/attachments/1/3/b.bin'',
      att_filename = ''b.bin'', att_content_type = None, att_size = 16\<rparr>"

definition dm_from :: "user \<Rightarrow> message" where
  "dm_from u =
     \<lparr>msg_author = u, msg_channel_is_dm = True, msg_content = [], msg_id = 1001,
      msg_attachments = [photo, blob]\<rparr>"

definition a_host :: host where
  "a_host = \<lparr>ctx_valid = (\<lambda>m. False), blocked_users = Some {7}\<rparr>"

definition loaded_cog :: cog where
  "loaded_cog = cog_load (init Map.empty)"

definition hello_args :: deliver_args where
  "hello_args =
     \<lparr>discord_user_id = ''42'', discord_username = ''alice'', content = ''hello'',
      discord_avatar_url = None, discord_message_id = None, attachments = None\<rparr>"

definition dquoted :: "string \<Rightarrow> string" where
  "dquoted s = [CHR 0x22] @ s @ [CHR 0x22]"

definition response_200_T1 :: http_response where
  "response_200_T1 =
     \<lparr>status = 200,
      json_outcome = Inr (JObject [(''ticket_id'', JString ''T1'')]),
      text_outcome = Inr (''{'' @ dquoted ''ticket_id'' @ '': '' @ dquoted ''T1'' @ ''}'')\<rparr>"

definition response_200_array :: http_response where
  "response_200_array =
     \<lparr>status = 200, json_outcome = Inr (JArray []), text_outcome = Inr ''[]''\<rparr>"

definition response_500_oops :: http_response where
  "response_500_oops =
     \<lparr>status = 500,
      json_outcome = Inl (Exn OtherException ''Expecting value: line 1 column 1 (char 0)''),
      text_outcome = Inr ''oops''\<rparr>"

definition response_500_unreadable :: http_response where
  "response_500_unreadable =
     \<lparr>status = 500,
      json_outcome = Inl (Exn ClientError ''Response payload is not completed''),
      text_outcome = Inl (Exn ClientError ''Response payload is not completed'')\<rparr>"

definition admin_call :: invocation where
  "admin_call = \<lparr>ctx_author = alice, ctx_message_id = 2002\<rparr>"

section \<open>Auxiliary facts\<close>

lemmas example_defs =
  alice_def bob_def photo_def blob_def dm_from_def a_host_def loaded_cog_def
  hello_args_def response_200_T1_def response_200_array_def response_500_oops_def
  response_500_unreadable_def
  admin_call_def dquoted_def init_def cog_load_def cog_unload_def config_get_def
  default_webhook_url_def

lemma handler_Exception:
  "is_Exception e \<Longrightarrow> handler e = (Inr False, [Log (fault_log e)])"
  by (cases e rule: handler.cases) (simp_all add: is_Exception_def)

lemma handler_no_deliver: "filter is_deliver (snd (handler e)) = []"
  by (cases e rule: handler.cases) simp_all

lemma on_response_no_deliver: "filter is_deliver (snd (on_response a r)) = []"
  by (simp add: on_response_def split: sum.splits)

lemma try_post_no_deliver: "filter is_deliver (snd (try_post c a env)) = []"
proof (cases env)
  case (Inl e)
  then show ?thesis by (simp add: try_post_def)
next
  case (Inr r)
  obtain res evs where "on_response a r = (res, evs)"
    by (cases "on_response a r")
  then show ?thesis
    using Inr on_response_no_deliver [of a r] by (simp add: try_post_def)
qed

lemma send_to_dashboard_one_deliver:
  "deliver_calls (snd (send_to_dashboard c a env)) = 1"
proof -
  obtain res evs where tp: "try_post c a env = (res, evs)"
    by (cases "try_post c a env")
  then have evs: "filter is_deliver evs = []"
    using try_post_no_deliver [of c a env] by simp
  show ?thesis
  proof (cases res)
    case (Inl e)
    obtain res' evs' where h: "handler e = (res', evs')"
      by (cases "handler e")
    then have "filter is_deliver evs' = []"
      using handler_no_deliver [of e] by simp
    with tp evs Inl h show ?thesis
      by (simp add: send_to_dashboard_def deliver_calls_def)
  next
    case (Inr b)
    with tp evs show ?thesis
      by (simp add: send_to_dashboard_def deliver_calls_def)
  qed
qed

section \<open>The listener's filter\<close>

text \<open>
  C1. A message whose author is a bot, whose channel is not a DM channel, which the bot's
  command parser takes for a valid command, or whose author is in \<open>blocked_users\<close> when
  the bot has that attribute, leads to no call of \<open>send_to_dashboard\<close> (and to no effect
  at all); every other message leads to exactly one call.
\<close>

theorem on_message_deliver_calls:
  "deliver_calls (snd (on_message c h m env)) =
     (if user_bot (msg_author m) \<or> \<not> msg_channel_is_dm m \<or> ctx_valid h m
         \<or> (case blocked_users h of None \<Rightarrow> False
             | Some B \<Rightarrow> user_id (msg_author m) \<in> B)
      then 0 else 1)
   \<and> (user_bot (msg_author m) \<or> \<not> msg_channel_is_dm m \<or> ctx_valid h m
         \<or> (case blocked_users h of None \<Rightarrow> False
             | Some B \<Rightarrow> user_id (msg_author m) \<in> B)
        \<longrightarrow> on_message c h m env = (Inr (), []))"
proof -
  obtain res evs where s: "send_to_dashboard c (message_args m) env = (res, evs)"
    by (cases "send_to_dashboard c (message_args m) env")
  then have one: "deliver_calls evs = 1"
    using send_to_dashboard_one_deliver [of c "message_args m" env] by simp
  then show ?thesis
    using s by (cases res) (auto simp: on_message_def is_blocked_def deliver_calls_def)
qed

text \<open>
  A DM of a human user who is not blocked is delivered once; a DM of a user of the
  blocked registry is not delivered.
\<close>

theorem on_message_deliver_calls_witness:
  "deliver_calls (snd (on_message loaded_cog a_host (dm_from alice) (Inr response_200_T1))) = 1
   \<and> deliver_calls (snd (on_message loaded_cog a_host (dm_from bob) (Inr response_200_T1))) = 0
   \<and> on_message loaded_cog a_host (dm_from bob) (Inr response_200_T1) = (Inr (), [])"
  using on_message_deliver_calls [of loaded_cog a_host "dm_from alice" "Inr response_200_T1"]
    on_message_deliver_calls [of loaded_cog a_host "dm_from bob" "Inr response_200_T1"]
  by (simp add: example_defs deliver_calls_def)

section \<open>Delivery\<close>

text \<open>
  C2. With no session or with an empty webhook URL, \<open>send_to_dashboard\<close> returns
  \<open>False\<close> at once: the trace holds the call and the one log line that names the missing
  configuration, and no call of the session.
\<close>

theorem send_to_dashboard_not_configured:
  "session c = None \<or> webhook_url c = [] \<Longrightarrow>
     fst (send_to_dashboard c a env) = Inr False
     \<and> http_calls (snd (send_to_dashboard c a env)) = []
     \<and> snd (send_to_dashboard c a env) =
         [Deliver a, Log (if session c = None then SessionNotInitialized else UrlNotConfigured)]"
  by (auto simp: send_to_dashboard_def http_calls_def)

text \<open>The cog before \<open>cog_load\<close>, and a loaded cog with an empty URL.\<close>

theorem send_to_dashboard_not_configured_witness:
  "send_to_dashboard (init Map.empty) hello_args (Inr response_200_T1) =
     (Inr False, [Deliver hello_args, Log SessionNotInitialized])
   \<and> send_to_dashboard (loaded_cog\<lparr>webhook_url := []\<rparr>) hello_args (Inr response_200_T1) =
     (Inr False, [Deliver hello_args, Log UrlNotConfigured])"
  using send_to_dashboard_not_configured [of "init Map.empty" hello_args "Inr response_200_T1"]
    send_to_dashboard_not_configured
      [of "loaded_cog\<lparr>webhook_url := []\<rparr>" hello_args "Inr response_200_T1"]
  by (simp add: example_defs prod_eq_iff)



lemma send_to_dashboard_configured:
  "session c \<noteq> None \<Longrightarrow> webhook_url c \<noteq> [] \<Longrightarrow>
     send_to_dashboard c a env =
       (case try_post c a env of
          (Inr b, evs) \<Rightarrow> (Inr b, Deliver a # evs)
        | (Inl e, evs) \<Rightarrow> (case handler e of (res, evs') \<Rightarrow> (res, Deliver a # evs @ evs')))"
  by (auto simp: send_to_dashboard_def)

lemma send_to_dashboard_caught:
  "session c \<noteq> None \<Longrightarrow> webhook_url c \<noteq> [] \<Longrightarrow> try_post c a env = (Inl e, evs) \<Longrightarrow>
     is_Exception e \<Longrightarrow>
     send_to_dashboard c a env = (Inr False, Deliver a # evs @ [Log (fault_log e)])"
  by (simp add: send_to_dashboard_configured handler_Exception)

text \<open>
  A signal that is no \<open>Exception\<close> (the task is cancelled while the request is awaited)
  passes the three \<open>except\<close> clauses and reaches the caller.
\<close>

lemma send_to_dashboard_signal:
  "session c \<noteq> None \<Longrightarrow> webhook_url c \<noteq> [] \<Longrightarrow>
     send_to_dashboard c a (Inl (Exn BaseOnly s)) =
       (Inl (Exn BaseOnly s),
        [Deliver a, HttpPost (webhook_url c) (payload a) (headers c) 10])"
  by (simp add: send_to_dashboard_configured try_post_def)



lemmas send_defs =
  send_to_dashboard_def try_post_def on_response_def payload_def headers_def
  json_opt_string_def transport_faults_def is_Exception_def AttributeError_def quoted_def


text \<open>
  C4, as stated, fails: a 200 response whose body decodes to a JSON value that is no object
  (here the empty list) makes \<open>result.get\<close> raise \<open>AttributeError\<close> inside the
  \<open>try\<close> block, and the call returns \<open>False\<close>.
\<close>

theorem send_to_dashboard_200_counterexample:
  "session loaded_cog \<noteq> None \<and> webhook_url loaded_cog \<noteq> []
   \<and> status response_200_array = 200
   \<and> json_outcome response_200_array = Inr (JArray [])
   \<and> fst (send_to_dashboard loaded_cog hello_args (Inr response_200_array)) = Inr False"
  by (simp add: example_defs send_defs)

text \<open>
  C4, amended. On a configured cog, when the endpoint answers with status 200 and the body
  decodes to a JSON object, the ticket id (\<open>unknown\<close> when the object has no key
  \<open>ticket_id\<close>) is taken from it and logged, and the call returns \<open>True\<close>.
\<close>

theorem send_to_dashboard_200_object:
  "session c \<noteq> None \<Longrightarrow> webhook_url c \<noteq> [] \<Longrightarrow> status r = 200 \<Longrightarrow>
   json_outcome r = Inr (JObject kvs) \<Longrightarrow>
     send_to_dashboard c a (Inr r) =
       (Inr True,
        [Deliver a,
         HttpPost (webhook_url c) (payload a) (headers c) 10,
         Log (Forwarded (discord_username a)
                (case map_of kvs ''ticket_id'' of None \<Rightarrow> JString ''unknown'' | Some t \<Rightarrow> t))])"
  by (simp add: send_to_dashboard_configured try_post_def on_response_def)

text \<open>A 200 response with the body \<open>{"ticket_id": "T1"}\<close>: success, ticket \<open>T1\<close>.\<close>

theorem send_to_dashboard_200_object_witness:
  "send_to_dashboard loaded_cog hello_args (Inr response_200_T1) =
     (Inr True,
      [Deliver hello_args,
       HttpPost default_webhook_url (payload hello_args) (headers loaded_cog) 10,
       Log (Forwarded ''alice'' (JString ''T1''))])"
  using send_to_dashboard_200_object
    [of loaded_cog response_200_T1 "[(''ticket_id'', JString ''T1'')]" hello_args]
  by (simp add: example_defs)

text \<open>
  C5, as stated, fails: \<open>response.text()\<close> is awaited inside the \<open>try\<close> block. When
  the endpoint answers with status 500 and the body cannot be read (here the connection
  ends before the body is complete), the exception is caught by the clause of its class and
  the log line is that of a failed request, without the status; no bad status is logged.
\<close>

theorem send_to_dashboard_bad_status_counterexample:
  "session loaded_cog \<noteq> None \<and> webhook_url loaded_cog \<noteq> []
   \<and> status response_500_unreadable = 500
   \<and> send_to_dashboard loaded_cog hello_args (Inr response_500_unreadable) =
       (Inr False,
        [Deliver hello_args,
         HttpPost default_webhook_url (payload hello_args) (headers loaded_cog) 10,
         Log (RequestFailed ''Response payload is not completed'')])"
  by (simp add: example_defs send_defs)

text \<open>
  C5, amended. On a configured cog, when the endpoint answers with a status other than 200
  and \<open>text()\<close> returns the body, the call returns \<open>False\<close> and logs the status and the
  body text as a bad status. When \<open>text()\<close> raises instead, the call returns \<open>False\<close>
  and logs the line of the \<open>except\<close> clause that catches the exception.
\<close>

theorem send_to_dashboard_bad_status:
  "session c \<noteq> None \<Longrightarrow> webhook_url c \<noteq> [] \<Longrightarrow> status r \<noteq> 200 \<Longrightarrow>
     (\<forall>body. text_outcome r = Inr body \<longrightarrow>
        send_to_dashboard c a (Inr r) =
          (Inr False,
           [Deliver a,
            HttpPost (webhook_url c) (payload a) (headers c) 10,
            Log (BadStatus (status r) body)]))
     \<and> (\<forall>e. text_outcome r = Inl e \<and> is_Exception e \<longrightarrow>
        send_to_dashboard c a (Inr r) =
          (Inr False,
           [Deliver a,
            HttpPost (webhook_url c) (payload a) (headers c) 10,
            Log (fault_log e)]))"
proof (intro conjI allI impI)
  fix body
  assume "session c \<noteq> None" "webhook_url c \<noteq> []" "status r \<noteq> 200"
    "text_outcome r = Inr body"
  then show "send_to_dashboard c a (Inr r) =
          (Inr False,
           [Deliver a,
            HttpPost (webhook_url c) (payload a) (headers c) 10,
            Log (BadStatus (status r) body)])"
    by (simp add: send_to_dashboard_configured try_post_def on_response_def)
next
  fix e
  assume conf: "session c \<noteq> None" "webhook_url c \<noteq> []" and st: "status r \<noteq> 200"
    and h: "text_outcome r = Inl e \<and> is_Exception e"
  from st h have "try_post c a (Inr r) =
      (Inl e, [HttpPost (webhook_url c) (payload a) (headers c) 10])"
    by (simp add: try_post_def on_response_def)
  with conf h show "send_to_dashboard c a (Inr r) =
          (Inr False,
           [Deliver a,
            HttpPost (webhook_url c) (payload a) (headers c) 10,
            Log (fault_log e)])"
    using send_to_dashboard_caught [of c a "Inr r" e] by simp
qed

text \<open>A 500 response with the body \<open>oops\<close>, and one whose body cannot be read.\<close>

theorem send_to_dashboard_bad_status_witness:
  "send_to_dashboard loaded_cog hello_args (Inr response_500_oops) =
     (Inr False,
      [Deliver hello_args,
       HttpPost default_webhook_url (payload hello_args) (headers loaded_cog) 10,
       Log (BadStatus 500 ''oops'')])
   \<and> send_to_dashboard loaded_cog hello_args (Inr response_500_unreadable) =
     (Inr False,
      [Deliver hello_args,
       HttpPost default_webhook_url (payload hello_args) (headers loaded_cog) 10,
       Log (RequestFailed ''Response payload is not completed'')])"
  using send_to_dashboard_bad_status [of loaded_cog response_500_oops hello_args]
    send_to_dashboard_bad_status [of loaded_cog response_500_unreadable hello_args]
  by (simp add: example_defs is_Exception_def)

section \<open>The transport record\<close>

text \<open>What the traces of the handlers are made of.\<close>

lemma send_to_dashboard_first_event:
  "\<exists>evs. snd (send_to_dashboard c a env) = Deliver a # evs"
  by (auto simp: send_to_dashboard_def split: prod.splits sum.splits)

lemma handler_events:
  "ev \<in> set (snd (handler e)) \<Longrightarrow> \<exists>l. ev = Log l"
  by (cases e rule: handler.cases) auto

lemma on_response_events:
  "ev \<in> set (snd (on_response a r)) \<Longrightarrow> \<exists>l. ev = Log l"
  by (auto simp: on_response_def split: if_splits sum.splits)

lemma try_post_events:
  "ev \<in> set (snd (try_post c a env)) \<Longrightarrow>
     ev = HttpPost (webhook_url c) (payload a) (headers c) 10 \<or> (\<exists>l. ev = Log l)"
proof (cases env)
  case (Inl e)
  assume "ev \<in> set (snd (try_post c a env))"
  with Inl show ?thesis by (simp add: try_post_def)
next
  case (Inr r)
  assume h: "ev \<in> set (snd (try_post c a env))"
  obtain res evs where o: "on_response a r = (res, evs)"
    by (cases "on_response a r")
  with h Inr have "ev = HttpPost (webhook_url c) (payload a) (headers c) 10 \<or> ev \<in> set evs"
    by (auto simp: try_post_def)
  with o show ?thesis using on_response_events [of ev a r] by auto
qed

lemma send_to_dashboard_events:
  "ev \<in> set (snd (send_to_dashboard c a env)) \<Longrightarrow>
     ev = Deliver a \<or> ev = HttpPost (webhook_url c) (payload a) (headers c) 10 \<or> (\<exists>l. ev = Log l)"
proof -
  assume h: "ev \<in> set (snd (send_to_dashboard c a env))"
  obtain res evs where tp: "try_post c a env = (res, evs)"
    by (cases "try_post c a env")
  have evs: "ev \<in> set evs \<Longrightarrow>
      ev = HttpPost (webhook_url c) (payload a) (headers c) 10 \<or> (\<exists>l. ev = Log l)"
    using tp try_post_events [of ev c a env] by simp
  show ?thesis
  proof (cases res)
    case (Inl e)
    obtain res' evs' where hd: "handler e = (res', evs')"
      by (cases "handler e")
    then have "ev \<in> set evs' \<Longrightarrow> \<exists>l. ev = Log l"
      using handler_events [of ev e] by simp
    with h tp Inl hd evs show ?thesis
      by (auto simp: send_to_dashboard_def split: if_splits)
  next
    case (Inr b)
    with h tp evs show ?thesis
      by (auto simp: send_to_dashboard_def split: if_splits)
  qed
qed

lemma on_message_events:
  "ev \<in> set (snd (on_message c h m env)) \<Longrightarrow>
     ev = Deliver (message_args m)
     \<or> ev = HttpPost (webhook_url c) (payload (message_args m)) (headers c) 10
     \<or> (\<exists>l. ev = Log l)"
proof -
  assume h: "ev \<in> set (snd (on_message c h m env))"
  obtain res evs where s: "send_to_dashboard c (message_args m) env = (res, evs)"
    by (cases "send_to_dashboard c (message_args m) env")
  with h have "ev \<in> set evs \<or> (\<exists>l. ev = Log l)"
    by (cases res) (auto simp: on_message_def split: if_splits)
  with s show ?thesis
    using send_to_dashboard_events [of ev c "message_args m" env] by auto
qed

lemma test_dashboard_events:
  "ev \<in> set (snd (test_dashboard c ctx message env)) \<Longrightarrow>
     ev = Deliver (test_args ctx message)
     \<or> ev = HttpPost (webhook_url c) (payload (test_args ctx message)) (headers c) 10
     \<or> (\<exists>l. ev = Log l) \<or> (\<exists>t. ev = CtxSend t)"
proof -
  assume h: "ev \<in> set (snd (test_dashboard c ctx message env))"
  obtain res evs where s: "send_to_dashboard c (test_args ctx message) env = (res, evs)"
    by (cases "send_to_dashboard c (test_args ctx message) env")
  with h have "ev \<in> set evs \<or> (\<exists>t. ev = CtxSend t)"
    by (cases res) (auto simp: test_dashboard_def split: if_splits)
  with s show ?thesis
    using send_to_dashboard_events [of ev c "test_args ctx message" env] by auto
qed

lemma payload_avatar:
  "discord_avatar_url a = Some s \<Longrightarrow>
     json_field (payload a) ''discord_avatar_url'' = Some (JString s)"
  by (simp add: payload_def json_opt_string_def)

lemma get_avatar_url_Some:
  "get_avatar_url u =
     Some (case avatar u of None \<Rightarrow> asset_url (default_avatar u) | Some av \<Rightarrow> asset_url av)"
  by (simp add: get_avatar_url_def split: option.splits)

text \<open>A message that passes the filter is handed to \<open>send_to_dashboard\<close>.\<close>

lemma on_message_passes:
  "\<not> user_bot (msg_author m) \<Longrightarrow> msg_channel_is_dm m \<Longrightarrow> \<not> ctx_valid h m \<Longrightarrow>
   \<not> is_blocked h m \<Longrightarrow>
     \<exists>evs. snd (on_message c h m env) = Deliver (message_args m) # evs"
  using send_to_dashboard_first_event [of c "message_args m" env]
  by (auto simp: on_message_def split: prod.splits sum.splits)

text \<open>
  C6. For a message that passes the filter, the arguments of \<open>send_to_dashboard\<close> are:
  the author's id and the message's id as decimal strings, \<open>str(author)\<close>, the text of
  the message or \<open>(No text content)\<close> when it is empty, the URL of the author's avatar or
  of the default avatar when the author has none, and for each attachment, in order, the
  dict of its \<open>url\<close>, \<open>filename\<close>, \<open>content_type\<close> and \<open>size\<close>, where a content
  type that is absent (\<open>None\<close> or empty, both falsy for \<open>or\<close>) becomes
  \<open>application/octet-stream\<close>.
\<close>

theorem on_message_transport_record:
  "\<not> user_bot (msg_author m) \<Longrightarrow> msg_channel_is_dm m \<Longrightarrow> \<not> ctx_valid h m \<Longrightarrow>
   \<not> (case blocked_users h of None \<Rightarrow> False | Some B \<Rightarrow> user_id (msg_author m) \<in> B) \<Longrightarrow>
     \<exists>a evs. snd (on_message c h m env) = Deliver a # evs
       \<and> discord_user_id a = str_int (user_id (msg_author m))
       \<and> discord_message_id a = Some (str_int (msg_id m))
       \<and> discord_username a = user_str (msg_author m)
       \<and> content a = (if msg_content m = [] then ''(No text content)'' else msg_content m)
       \<and> discord_avatar_url a =
           Some (case avatar (msg_author m) of
                   None \<Rightarrow> asset_url (default_avatar (msg_author m))
                 | Some av \<Rightarrow> asset_url av)
       \<and> attachments a =
           Some (map (\<lambda>att.
                   JObject [(''url'', JString (att_url att)),
                            (''filename'', JString (att_filename att)),
                            (''content_type'',
                               JString (case att_content_type att of
                                          None \<Rightarrow> ''application/octet-stream''
                                        | Some ct \<Rightarrow>
                                            if ct = [] then ''application/octet-stream'' else ct)),
                            (''size'', JInt (att_size att))])
                 (msg_attachments m))
       \<and> (\<exists>xs. attachments a = Some xs \<and> length xs = length (msg_attachments m))"
proof -
  assume "\<not> user_bot (msg_author m)" "msg_channel_is_dm m" "\<not> ctx_valid h m"
    "\<not> (case blocked_users h of None \<Rightarrow> False | Some B \<Rightarrow> user_id (msg_author m) \<in> B)"
  then obtain evs where "snd (on_message c h m env) = Deliver (message_args m) # evs"
    using on_message_passes [of m h c env] by (auto simp: is_blocked_def)
  moreover have "format_attachments (msg_attachments m) =
      map (\<lambda>att.
             JObject [(''url'', JString (att_url att)),
                      (''filename'', JString (att_filename att)),
                      (''content_type'',
                         JString (case att_content_type att of
                                    None \<Rightarrow> ''application/octet-stream''
                                  | Some ct \<Rightarrow>
                                      if ct = [] then ''application/octet-stream'' else ct)),
                      (''size'', JInt (att_size att))])
          (msg_attachments m)"
    by (simp add: format_attachments_def format_attachment_def or_default_def)
  ultimately show ?thesis
    by (simp add: message_args_def get_avatar_url_def split: option.splits)
qed

text \<open>
  A DM of \<open>alice\<close> (id 42, no avatar) with an empty text and two attachments, the second
  without a content type.
\<close>

theorem on_message_transport_record_witness:
  "hd (snd (on_message loaded_cog a_host (dm_from alice) (Inr response_200_T1))) =
     Deliver
       \<lparr>discord_user_id = ''42'', discord_username = ''alice'',
        content = ''(No text content)'',
        discord_avatar_url = Some ''https://cdn.discordapp.com/embed/avatars/0.png'',
        discord_message_id = Some ''1001'',
        attachments = Some
          [JObject [(''url'', JString ''https://cdn.discordapp.com/attachments/1/2/a.png''),
                    (''filename'', JString ''a.png''),
                    (''content_type'', JString ''image/png''),
                    (''size'', JInt 2048)],
           JObject [(''url'', JString ''https://cdn.discordapp.com/attachments/1/3/b.bin''),
                    (''filename'', JString ''b.bin''),
                    (''content_type'', JString ''application/octet-stream''),
                    (''size'', JInt 16)]]\<rparr>"
proof -
  have s1: "str_int 42 = ''42''" by code_simp
  have s2: "str_int 1001 = ''1001''" by code_simp
  obtain a evs where
    h: "snd (on_message loaded_cog a_host (dm_from alice) (Inr response_200_T1)) = Deliver a # evs"
    and f: "discord_user_id a = str_int (user_id (msg_author (dm_from alice)))"
      "discord_message_id a = Some (str_int (msg_id (dm_from alice)))"
      "discord_username a = user_str (msg_author (dm_from alice))"
      "content a = (if msg_content (dm_from alice) = [] then ''(No text content)''
                    else msg_content (dm_from alice))"
      "discord_avatar_url a =
           Some (case avatar (msg_author (dm_from alice)) of
                   None \<Rightarrow> asset_url (default_avatar (msg_author (dm_from alice)))
                 | Some av \<Rightarrow> asset_url av)"
      "attachments a =
           Some (map (\<lambda>att.
                   JObject [(''url'', JString (att_url att)),
                            (''filename'', JString (att_filename att)),
                            (''content_type'',
                               JString (case att_content_type att of
                                          None \<Rightarrow> ''application/octet-stream''
                                        | Some ct \<Rightarrow>
                                            if ct = [] then ''application/octet-stream'' else ct)),
                            (''size'', JInt (att_size att))])
                 (msg_attachments (dm_from alice)))"
    using on_message_transport_record [of "dm_from alice" a_host loaded_cog "Inr response_200_T1"]
    by (auto simp: example_defs)
  have "a = \<lparr>discord_user_id = ''42'', discord_username = ''alice'',
        content = ''(No text content)'',
        discord_avatar_url = Some ''https://cdn.discordapp.com/embed/avatars/0.png'',
        discord_message_id = Some ''1001'',
        attachments = Some
          [JObject [(''url'', JString ''https://cdn.discordapp.com/attachments/1/2/a.png''),
                    (''filename'', JString ''a.png''),
                    (''content_type'', JString ''image/png''),
                    (''size'', JInt 2048)],
           JObject [(''url'', JString ''https://cdn.discordapp.com/attachments/1/3/b.bin''),
                    (''filename'', JString ''b.bin''),
                    (''content_type'', JString ''application/octet-stream''),
                    (''size'', JInt 16)]]\<rparr>"
    using f s1 s2 by (simp add: example_defs)
  with h show ?thesis by simp
qed


text \<open>The trace of the test command.\<close>

lemma test_dashboard_trace:
  "snd (test_dashboard c ctx message env) =
     snd (send_to_dashboard c (test_args ctx message) env)
     @ (case fst (send_to_dashboard c (test_args ctx message) env) of
          Inl e \<Rightarrow> []
        | Inr success \<Rightarrow> [CtxSend (if success then test_sent_text else test_failed_text)])"
  by (simp add: test_dashboard_def split: prod.splits sum.splits)

text \<open>
  C9. The test command calls \<open>send_to_dashboard\<close>, as the listener does, with the content
  \<open>[TEST] \<close> followed by the given message, or by \<open>Test message from bot\<close> when none
  is given, and with the invoker's id as a decimal string; its trace is that of
  \<open>send_to_dashboard\<close> followed by the reply to the invoker.
\<close>

theorem test_dashboard_transport_record:
  "\<exists>a evs. snd (test_dashboard c ctx message env) = Deliver a # evs
     \<and> content a =
         ''[TEST] '' @ (case message of None \<Rightarrow> ''Test message from bot'' | Some s \<Rightarrow> s)
     \<and> discord_user_id a = str_int (user_id (ctx_author ctx))
     \<and> snd (test_dashboard c ctx message env) =
         snd (send_to_dashboard c a env)
         @ (case fst (send_to_dashboard c a env) of
              Inl e \<Rightarrow> []
            | Inr success \<Rightarrow>
                [CtxSend (if success then test_sent_text else test_failed_text)])"
proof -
  obtain evs where
    "snd (send_to_dashboard c (test_args ctx message) env) = Deliver (test_args ctx message) # evs"
    using send_to_dashboard_first_event by blast
  then have "\<exists>evs'. snd (test_dashboard c ctx message env) = Deliver (test_args ctx message) # evs'"
    by (simp add: test_dashboard_trace)
  moreover have "content (test_args ctx message) =
      ''[TEST] '' @ (case message of None \<Rightarrow> ''Test message from bot'' | Some s \<Rightarrow> s)"
    by (simp add: test_args_def)
  moreover have "discord_user_id (test_args ctx message) = str_int (user_id (ctx_author ctx))"
    by (simp add: test_args_def)
  ultimately show ?thesis
    using test_dashboard_trace [of c ctx message env] by blast
qed

text \<open>The message \<open>hello\<close> and no message, from the invoker with id 42.\<close>

theorem test_dashboard_transport_record_witness:
  "(\<exists>a evs. snd (test_dashboard loaded_cog admin_call (Some ''hello'') (Inr response_200_T1))
        = Deliver a # evs
      \<and> content a = ''[TEST] hello'' \<and> discord_user_id a = ''42'')
   \<and> (\<exists>a evs. snd (test_dashboard loaded_cog admin_call None (Inr response_200_T1))
        = Deliver a # evs
      \<and> content a = ''[TEST] Test message from bot'' \<and> discord_user_id a = ''42'')"
proof -
  have s1: "str_int 42 = ''42''" by code_simp
  obtain a evs where
    h: "snd (test_dashboard loaded_cog admin_call (Some ''hello'') (Inr response_200_T1))
          = Deliver a # evs"
    and f: "content a = ''[TEST] '' @ (case Some ''hello'' of
                None \<Rightarrow> ''Test message from bot'' | Some s \<Rightarrow> s)"
      "discord_user_id a = str_int (user_id (ctx_author admin_call))"
    using test_dashboard_transport_record
        [of loaded_cog admin_call "Some ''hello''" "Inr response_200_T1"]
    by blast
  obtain a' evs' where
    h': "snd (test_dashboard loaded_cog admin_call None (Inr response_200_T1))
          = Deliver a' # evs'"
    and f': "content a' = ''[TEST] '' @ (case None of
                None \<Rightarrow> ''Test message from bot'' | Some s \<Rightarrow> s)"
      "discord_user_id a' = str_int (user_id (ctx_author admin_call))"
    using test_dashboard_transport_record [of loaded_cog admin_call None "Inr response_200_T1"]
    by blast
  from f f' s1 have "content a = ''[TEST] hello''" "discord_user_id a = ''42''"
    "content a' = ''[TEST] Test message from bot''" "discord_user_id a' = ''42''"
    by (simp_all add: admin_call_def alice_def)
  with h h' show ?thesis by blast
qed

text \<open>
  C10. \<open>_get_avatar_url\<close> returns the URL of the user's own avatar, or the URL of the
  default avatar when the user has none; it never returns \<open>None\<close>, although its return
  type is \<open>Optional[str]\<close>. So every call of \<open>send_to_dashboard\<close> by the listener or
  by the test command carries that URL of the author or of the invoker, and every payload
  that is posted has it as a string, not \<open>null\<close>, under \<open>discord_avatar_url\<close>. The
  test command always makes such a call, and so does the listener for a message that passes
  its filter.
\<close>

theorem get_avatar_url_never_None:
  "get_avatar_url u =
     Some (case avatar u of None \<Rightarrow> asset_url (default_avatar u) | Some av \<Rightarrow> asset_url av)
   \<and> get_avatar_url u \<noteq> None
   \<and> (\<forall>a. Deliver a \<in> set (snd (on_message c h m env)) \<longrightarrow>
          discord_avatar_url a \<noteq> None
          \<and> discord_avatar_url a =
              Some (case avatar (msg_author m) of None \<Rightarrow> asset_url (default_avatar (msg_author m))
                    | Some av \<Rightarrow> asset_url av))
   \<and> (\<forall>a. Deliver a \<in> set (snd (test_dashboard c ctx message env)) \<longrightarrow>
          discord_avatar_url a \<noteq> None
          \<and> discord_avatar_url a =
              Some (case avatar (ctx_author ctx) of None \<Rightarrow> asset_url (default_avatar (ctx_author ctx))
                    | Some av \<Rightarrow> asset_url av))
   \<and> (\<forall>url p hs t. HttpPost url p hs t \<in> set (snd (on_message c h m env)) \<longrightarrow>
          json_field p ''discord_avatar_url'' =
            Some (JString (case avatar (msg_author m) of None \<Rightarrow> asset_url (default_avatar (msg_author m))
                    | Some av \<Rightarrow> asset_url av)))
   \<and> (\<forall>url p hs t. HttpPost url p hs t \<in> set (snd (test_dashboard c ctx message env)) \<longrightarrow>
          json_field p ''discord_avatar_url'' =
            Some (JString (case avatar (ctx_author ctx) of None \<Rightarrow> asset_url (default_avatar (ctx_author ctx))
                    | Some av \<Rightarrow> asset_url av)))
   \<and> (\<exists>a evs. snd (test_dashboard c ctx message env) = Deliver a # evs
          \<and> discord_avatar_url a =
              Some (case avatar (ctx_author ctx) of None \<Rightarrow> asset_url (default_avatar (ctx_author ctx))
                    | Some av \<Rightarrow> asset_url av))
   \<and> (\<not> user_bot (msg_author m) \<and> msg_channel_is_dm m \<and> \<not> ctx_valid h m
        \<and> \<not> (case blocked_users h of None \<Rightarrow> False
                | Some B \<Rightarrow> user_id (msg_author m) \<in> B)
        \<longrightarrow> (\<exists>a evs. snd (on_message c h m env) = Deliver a # evs
               \<and> discord_avatar_url a =
                   Some (case avatar (msg_author m) of None \<Rightarrow> asset_url (default_avatar (msg_author m))
                    | Some av \<Rightarrow> asset_url av)))"
proof -
  have am: "discord_avatar_url (message_args m) =
      Some (case avatar (msg_author m) of None \<Rightarrow> asset_url (default_avatar (msg_author m))
                    | Some av \<Rightarrow> asset_url av)"
    by (simp add: message_args_def get_avatar_url_Some)
  have ac: "discord_avatar_url (test_args ctx message) =
      Some (case avatar (ctx_author ctx) of None \<Rightarrow> asset_url (default_avatar (ctx_author ctx))
                    | Some av \<Rightarrow> asset_url av)"
    by (simp add: test_args_def get_avatar_url_Some)
  have c1: "get_avatar_url u =
     Some (case avatar u of None \<Rightarrow> asset_url (default_avatar u) | Some av \<Rightarrow> asset_url av)"
    by (rule get_avatar_url_Some)
  have c2: "get_avatar_url u \<noteq> None" by (simp add: get_avatar_url_Some)
  have c3: "\<forall>a. Deliver a \<in> set (snd (on_message c h m env)) \<longrightarrow>
          discord_avatar_url a \<noteq> None
          \<and> discord_avatar_url a =
              Some (case avatar (msg_author m) of None \<Rightarrow> asset_url (default_avatar (msg_author m))
                    | Some av \<Rightarrow> asset_url av)"
  proof (intro allI impI)
    fix a assume "Deliver a \<in> set (snd (on_message c h m env))"
    then have "a = message_args m" using on_message_events by blast
    with am show "discord_avatar_url a \<noteq> None
          \<and> discord_avatar_url a =
              Some (case avatar (msg_author m) of None \<Rightarrow> asset_url (default_avatar (msg_author m))
                    | Some av \<Rightarrow> asset_url av)"
      by simp
  qed
  have c4: "\<forall>a. Deliver a \<in> set (snd (test_dashboard c ctx message env)) \<longrightarrow>
          discord_avatar_url a \<noteq> None
          \<and> discord_avatar_url a =
              Some (case avatar (ctx_author ctx) of None \<Rightarrow> asset_url (default_avatar (ctx_author ctx))
                    | Some av \<Rightarrow> asset_url av)"
  proof (intro allI impI)
    fix a assume "Deliver a \<in> set (snd (test_dashboard c ctx message env))"
    then have "a = test_args ctx message" using test_dashboard_events by blast
    with ac show "discord_avatar_url a \<noteq> None
          \<and> discord_avatar_url a =
              Some (case avatar (ctx_author ctx) of None \<Rightarrow> asset_url (default_avatar (ctx_author ctx))
                    | Some av \<Rightarrow> asset_url av)"
      by simp
  qed
  have c5: "\<forall>url p hs t. HttpPost url p hs t \<in> set (snd (on_message c h m env)) \<longrightarrow>
          json_field p ''discord_avatar_url'' =
            Some (JString (case avatar (msg_author m) of None \<Rightarrow> asset_url (default_avatar (msg_author m))
                    | Some av \<Rightarrow> asset_url av))"
  proof (intro allI impI)
    fix url p hs t assume "HttpPost url p hs t \<in> set (snd (on_message c h m env))"
    then have "p = payload (message_args m)" using on_message_events by blast
    with am show "json_field p ''discord_avatar_url'' =
            Some (JString (case avatar (msg_author m) of None \<Rightarrow> asset_url (default_avatar (msg_author m))
                    | Some av \<Rightarrow> asset_url av))"
      using payload_avatar by simp
  qed
  have c6: "\<forall>url p hs t. HttpPost url p hs t \<in> set (snd (test_dashboard c ctx message env)) \<longrightarrow>
          json_field p ''discord_avatar_url'' =
            Some (JString (case avatar (ctx_author ctx) of None \<Rightarrow> asset_url (default_avatar (ctx_author ctx))
                    | Some av \<Rightarrow> asset_url av))"
  proof (intro allI impI)
    fix url p hs t assume "HttpPost url p hs t \<in> set (snd (test_dashboard c ctx message env))"
    then have "p = payload (test_args ctx message)" using test_dashboard_events by blast
    with ac show "json_field p ''discord_avatar_url'' =
            Some (JString (case avatar (ctx_author ctx) of None \<Rightarrow> asset_url (default_avatar (ctx_author ctx))
                    | Some av \<Rightarrow> asset_url av))"
      using payload_avatar by simp
  qed
  have c7: "\<exists>a evs. snd (test_dashboard c ctx message env) = Deliver a # evs
          \<and> discord_avatar_url a =
              Some (case avatar (ctx_author ctx) of None \<Rightarrow> asset_url (default_avatar (ctx_author ctx))
                    | Some av \<Rightarrow> asset_url av)"
  proof -
    obtain evs where "snd (send_to_dashboard c (test_args ctx message) env) =
        Deliver (test_args ctx message) # evs"
      using send_to_dashboard_first_event by blast
    then have "\<exists>evs'. snd (test_dashboard c ctx message env) =
        Deliver (test_args ctx message) # evs'"
      by (simp add: test_dashboard_trace)
    with ac show ?thesis by blast
  qed
  have c8: "\<not> user_bot (msg_author m) \<and> msg_channel_is_dm m \<and> \<not> ctx_valid h m
        \<and> \<not> (case blocked_users h of None \<Rightarrow> False
                | Some B \<Rightarrow> user_id (msg_author m) \<in> B)
        \<longrightarrow> (\<exists>a evs. snd (on_message c h m env) = Deliver a # evs
               \<and> discord_avatar_url a =
                   Some (case avatar (msg_author m) of None \<Rightarrow> asset_url (default_avatar (msg_author m))
                    | Some av \<Rightarrow> asset_url av))"
  proof
    assume "\<not> user_bot (msg_author m) \<and> msg_channel_is_dm m \<and> \<not> ctx_valid h m
        \<and> \<not> (case blocked_users h of None \<Rightarrow> False
                | Some B \<Rightarrow> user_id (msg_author m) \<in> B)"
    then have "\<exists>evs. snd (on_message c h m env) = Deliver (message_args m) # evs"
      using on_message_passes [of m h c env] by (simp add: is_blocked_def)
    with am show "\<exists>a evs. snd (on_message c h m env) = Deliver a # evs
               \<and> discord_avatar_url a =
                   Some (case avatar (msg_author m) of None \<Rightarrow> asset_url (default_avatar (msg_author m))
                    | Some av \<Rightarrow> asset_url av)"
      by blast
  qed
  from c1 c2 c3 c4 c5 c6 c7 c8 show ?thesis by blast
qed

text \<open>
  \<open>alice\<close> has no avatar of her own and \<open>bob\<close> has one; the listener for a DM of
  \<open>alice\<close> and the test command invoked by her.
\<close>

theorem get_avatar_url_never_None_witness:
  "get_avatar_url alice = Some ''https://cdn.discordapp.com/embed/avatars/0.png''
   \<and> get_avatar_url bob = Some ''https://cdn.discordapp.com/avatars/7/b.png''
   \<and> (\<exists>a evs. snd (on_message loaded_cog a_host (dm_from alice) (Inr response_200_T1))
          = Deliver a # evs
        \<and> discord_avatar_url a = Some ''https://cdn.discordapp.com/embed/avatars/0.png'')
   \<and> (\<exists>a evs. snd (test_dashboard loaded_cog admin_call None (Inr response_200_T1))
          = Deliver a # evs
        \<and> discord_avatar_url a = Some ''https://cdn.discordapp.com/embed/avatars/0.png'')"
proof -
  note t = get_avatar_url_never_None
    [of alice loaded_cog a_host "dm_from alice" "Inr response_200_T1" admin_call None]
  have w1: "get_avatar_url alice = Some ''https://cdn.discordapp.com/embed/avatars/0.png''"
    using t by (simp add: alice_def)
  have w2: "get_avatar_url bob = Some ''https://cdn.discordapp.com/avatars/7/b.png''"
    using get_avatar_url_never_None
      [of bob loaded_cog a_host "dm_from alice" "Inr response_200_T1" admin_call None]
    by (simp add: bob_def)
  have pass: "\<not> user_bot (msg_author (dm_from alice)) \<and> msg_channel_is_dm (dm_from alice)
      \<and> \<not> ctx_valid a_host (dm_from alice)
      \<and> \<not> (case blocked_users a_host of None \<Rightarrow> False
              | Some B \<Rightarrow> user_id (msg_author (dm_from alice)) \<in> B)"
    by (simp add: dm_from_def alice_def a_host_def)
  have av: "(case avatar (msg_author (dm_from alice)) of None \<Rightarrow> asset_url (default_avatar (msg_author (dm_from alice)))
                    | Some av \<Rightarrow> asset_url av) = ''https://cdn.discordapp.com/embed/avatars/0.png''"
    by (simp add: dm_from_def alice_def)
  have av': "(case avatar (ctx_author admin_call) of None \<Rightarrow> asset_url (default_avatar (ctx_author admin_call))
                    | Some av \<Rightarrow> asset_url av) = ''https://cdn.discordapp.com/embed/avatars/0.png''"
    by (simp add: admin_call_def alice_def)
  from t pass have "\<exists>a evs. snd (on_message loaded_cog a_host (dm_from alice)
        (Inr response_200_T1)) = Deliver a # evs
      \<and> discord_avatar_url a = Some (case avatar (msg_author (dm_from alice)) of None \<Rightarrow> asset_url (default_avatar (msg_author (dm_from alice)))
                    | Some av \<Rightarrow> asset_url av)"
    by blast
  then have w3: "\<exists>a evs. snd (on_message loaded_cog a_host (dm_from alice)
        (Inr response_200_T1)) = Deliver a # evs
      \<and> discord_avatar_url a = Some ''https://cdn.discordapp.com/embed/avatars/0.png''"
    unfolding av .
  from t have "\<exists>a evs. snd (test_dashboard loaded_cog admin_call None
        (Inr response_200_T1)) = Deliver a # evs
      \<and> discord_avatar_url a = Some (case avatar (ctx_author admin_call) of None \<Rightarrow> asset_url (default_avatar (ctx_author admin_call))
                    | Some av \<Rightarrow> asset_url av)"
    by blast
  then have w4: "\<exists>a evs. snd (test_dashboard loaded_cog admin_call None
        (Inr response_200_T1)) = Deliver a # evs
      \<and> discord_avatar_url a = Some ''https://cdn.discordapp.com/embed/avatars/0.png''"
    unfolding av' .
  from w1 w2 w3 w4 show ?thesis by blast
qed

section \<open>The status report\<close>

text \<open>The three fields of the embed before the connection test, and what is sent.\<close>

lemma status_embed_fields:
  "embed_fields (status_embed c now) =
     [\<lparr>field_name = ''Webhook URL'',
       field_value = (if webhook_url c \<noteq> []
                      then replicate 3 (CHR 0x60) @ take 50 (webhook_url c) @ ''...''
                           @ replicate 3 (CHR 0x60)
                      else ''Not configured''),
       inline = False\<rparr>,
      \<lparr>field_name = ''Secret Configured'',
       field_value = (if webhook_secret c \<noteq> [] then yes_text else no_text),
       inline = True\<rparr>,
      \<lparr>field_name = ''Session Active'',
       field_value = (if (case session c of None \<Rightarrow> False | Some s \<Rightarrow> \<not> closed s)
                      then yes_text else no_text),
       inline = True\<rparr>]"
  by (simp add: status_embed_def add_field_def Let_def)

lemma add_field_fields:
  "embed_fields (add_field em n v i) =
     embed_fields em @ [\<lparr>field_name = n, field_value = v, inline = i\<rparr>]"
  by (simp add: add_field_def)

lemma try_get_embed:
  "try_get c em env = (Inr em', evs) \<Longrightarrow> \<exists>v. em' = add_field em ''Connection Test'' v False"
  by (auto simp: try_get_def Let_def split: option.splits sum.splits if_splits)

lemma try_get_events:
  "ev \<in> set (snd (try_get c em env)) \<Longrightarrow> \<exists>u t. ev = HttpGet u t"
  by (auto simp: try_get_def Let_def split: option.splits sum.splits if_splits)

lemma dashboard_status_embed:
  "CtxSendEmbed em \<in> set (snd (dashboard_status c now env)) \<Longrightarrow>
     em = status_embed c now
     \<or> (\<exists>v. em = add_field (status_embed c now) ''Connection Test'' v False)"
proof -
  assume h: "CtxSendEmbed em \<in> set (snd (dashboard_status c now env))"
  obtain res evs where tg: "try_get c (status_embed c now) env = (res, evs)"
    by (cases "try_get c (status_embed c now) env")
  have evs: "CtxSendEmbed em \<notin> set evs"
    using tg try_get_events [of "CtxSendEmbed em" c "status_embed c now" env] by auto
  show ?thesis
  proof (cases res)
    case (Inl e)
    with h tg evs show ?thesis
      by (auto simp: dashboard_status_def Let_def split: if_splits)
  next
    case (Inr em')
    with tg obtain v where "em' = add_field (status_embed c now) ''Connection Test'' v False"
      using try_get_embed by blast
    with h tg evs Inr show ?thesis
      by (auto simp: dashboard_status_def Let_def split: if_splits)
  qed
qed

text \<open>The report reads the secret only to test whether it is empty.\<close>

lemma status_embed_secret_update:
  "s1 \<noteq> [] \<Longrightarrow> s2 \<noteq> [] \<Longrightarrow>
     status_embed (c\<lparr>webhook_secret := s1\<rparr>) now = status_embed (c\<lparr>webhook_secret := s2\<rparr>) now"
  by (simp add: status_embed_def)

lemma try_get_secret_update:
  "try_get (c\<lparr>webhook_secret := s\<rparr>) em env = try_get c em env"
  by (simp add: try_get_def split: option.splits)

lemma dashboard_status_secret_update:
  "s1 \<noteq> [] \<Longrightarrow> s2 \<noteq> [] \<Longrightarrow>
     dashboard_status (c\<lparr>webhook_secret := s1\<rparr>) now env =
     dashboard_status (c\<lparr>webhook_secret := s2\<rparr>) now env"
proof -
  assume ne: "s1 \<noteq> []" "s2 \<noteq> []"
  have "dashboard_status (c\<lparr>webhook_secret := s1\<rparr>) now env =
      (let em = status_embed (c\<lparr>webhook_secret := s2\<rparr>) now in
       if webhook_url c \<noteq> [] then
         (case try_get c em env of
            (Inr em', evs) \<Rightarrow> (Inr (), evs @ [CtxSendEmbed em'])
          | (Inl e, evs) \<Rightarrow>
              (if is_Exception e
               then (Inr (),
                     evs @ [CtxSendEmbed (add_field em ''Connection Test'' (failed_text e) False)])
               else (Inl e, evs)))
       else (Inr (), [CtxSendEmbed em]))"
    unfolding dashboard_status_def try_get_secret_update
      status_embed_secret_update [OF ne, of c now]
    by simp
  also have "\<dots> = dashboard_status (c\<lparr>webhook_secret := s2\<rparr>) now env"
    unfolding dashboard_status_def try_get_secret_update by simp
  finally show ?thesis .
qed

text \<open>
  \<open>replace\<close> on a string that ends with \<open>old\<close> and has no other occurrence of it
  replaces that suffix.
\<close>

lemma py_replace_suffix:
  "old \<noteq> [] \<Longrightarrow> \<forall>i < length base. take (length old) (drop i (base @ old)) \<noteq> old \<Longrightarrow>
     py_replace (base @ old) old new = base @ new"
proof (induction base)
  case Nil
  then show ?case
    by (simp add: py_replace.simps [of old old new] py_replace.simps [of "[]" old new])
next
  case (Cons c b)
  from Cons.prems(2) have "take (length old) (drop 0 ((c # b) @ old)) \<noteq> old"
    by blast
  then have head: "take (length old) (c # b @ old) \<noteq> old" by simp
  have "\<forall>i < length b. take (length old) (drop i (b @ old)) \<noteq> old"
  proof (intro allI impI)
    fix i assume "i < length b"
    then have "Suc i < length (c # b)" by simp
    with Cons.prems(2) have "take (length old) (drop (Suc i) ((c # b) @ old)) \<noteq> old"
      by blast
    then show "take (length old) (drop i (b @ old)) \<noteq> old" by simp
  qed
  with Cons.IH Cons.prems(1) have "py_replace (b @ old) old new = b @ new" by blast
  with head Cons.prems(1) show ?case
    by (simp add: py_replace.simps [of "c # b @ old" old new])
qed

lemma health_url_default:
  "health_url default_webhook_url =
     ''https://qlnbergwjfrmgkjhrbkj.supabase.co/functions/v1/health''"
  by code_simp

lemma health_url_twice:
  "health_url ''https://h/discord-modmail-webhook/discord-modmail-webhook'' =
     ''https://h/health/health''"
  by code_simp

lemma probe_texts_distinct:
  "reachable_text \<noteq> status_text n \<and> reachable_text \<noteq> failed_text e
   \<and> status_text n \<noteq> failed_text e"
  by (simp add: reachable_text_def status_text_def failed_text_def)

text \<open>The connection test, case by case.\<close>

lemma try_get_None:
  "session c = None \<Longrightarrow> try_get c em env = (Inl (AttributeError ''NoneType'' ''get''), [])"
  by (simp add: try_get_def)

lemma try_get_Some:
  "session c = Some s \<Longrightarrow>
     try_get c em env =
       (case env of
          Inl e \<Rightarrow> (Inl e, [HttpGet (health_url (webhook_url c)) 5])
        | Inr r \<Rightarrow>
            (Inr (add_field em ''Connection Test''
                    (if status r = 200 then reachable_text else status_text (status r)) False),
             [HttpGet (health_url (webhook_url c)) 5]))"
  by (simp add: try_get_def split: sum.splits)

lemma dashboard_status_no_url:
  "webhook_url c = [] \<Longrightarrow> dashboard_status c now env = (Inr (), [CtxSendEmbed (status_embed c now)])"
  by (simp add: dashboard_status_def)

lemma dashboard_status_no_session:
  "webhook_url c \<noteq> [] \<Longrightarrow> session c = None \<Longrightarrow>
     dashboard_status c now env =
       (Inr (),
        [CtxSendEmbed (add_field (status_embed c now) ''Connection Test''
           (failed_text (AttributeError ''NoneType'' ''get'')) False)])"
  by (simp add: dashboard_status_def try_get_None is_Exception_def AttributeError_def)

lemma dashboard_status_response:
  "webhook_url c \<noteq> [] \<Longrightarrow> session c = Some s \<Longrightarrow>
     dashboard_status c now (Inr r) =
       (Inr (),
        [HttpGet (health_url (webhook_url c)) 5,
         CtxSendEmbed (add_field (status_embed c now) ''Connection Test''
           (if status r = 200 then reachable_text else status_text (status r)) False)])"
  by (simp add: dashboard_status_def try_get_Some)

lemma dashboard_status_exception:
  "webhook_url c \<noteq> [] \<Longrightarrow> session c = Some s \<Longrightarrow> is_Exception e \<Longrightarrow>
     dashboard_status c now (Inl e) =
       (Inr (),
        [HttpGet (health_url (webhook_url c)) 5,
         CtxSendEmbed (add_field (status_embed c now) ''Connection Test'' (failed_text e) False)])"
  by (simp add: dashboard_status_def try_get_Some)

lemma dashboard_status_signal:
  "webhook_url c \<noteq> [] \<Longrightarrow> session c = Some s \<Longrightarrow> \<not> is_Exception e \<Longrightarrow>
     dashboard_status c now (Inl e) = (Inl e, [HttpGet (health_url (webhook_url c)) 5])"
  by (simp add: dashboard_status_def try_get_Some)

lemma dashboard_status_one_get:
  "webhook_url c \<noteq> [] \<Longrightarrow> session c = Some s \<Longrightarrow>
     http_calls (snd (dashboard_status c now env)) = [HttpGet (health_url (webhook_url c)) 5]"
proof (cases env)
  case (Inl e)
  assume "webhook_url c \<noteq> []" "session c = Some s"
  with Inl show ?thesis
    using dashboard_status_exception [of c s e now] dashboard_status_signal [of c s e now]
    by (cases "is_Exception e") (simp_all add: http_calls_def)
next
  case (Inr r)
  assume "webhook_url c \<noteq> []" "session c = Some s"
  with Inr show ?thesis
    by (simp add: dashboard_status_response http_calls_def)
qed

text \<open>The second field of every embed of the report.\<close>

lemma secret_field:
  "embed_fields (status_embed c now) ! 1 =
          \<lparr>field_name = ''Secret Configured'',
            field_value = (if webhook_secret c = []
                           then [CHR 0xE2, CHR 0x9D, CHR 0x8C] @ '' No''
                           else [CHR 0xE2, CHR 0x9C, CHR 0x85] @ '' Yes''),
            inline = True\<rparr>"
  "embed_fields (add_field (status_embed c now) n v i) ! 1 =
          \<lparr>field_name = ''Secret Configured'',
            field_value = (if webhook_secret c = []
                           then [CHR 0xE2, CHR 0x9D, CHR 0x8C] @ '' No''
                           else [CHR 0xE2, CHR 0x9C, CHR 0x85] @ '' Yes''),
            inline = True\<rparr>"
  by (simp_all add: add_field_fields status_embed_fields yes_text_def no_text_def)

lemma dashboard_status_sends:
  "(\<forall>e. env = Inl e \<longrightarrow> is_Exception e) \<or> webhook_url c = [] \<or> session c = None \<Longrightarrow>
     fst (dashboard_status c now env) = Inr ()
     \<and> (\<exists>em. sent_embeds (snd (dashboard_status c now env)) = [em]
          \<and> embed_fields em ! 1 =
          \<lparr>field_name = ''Secret Configured'',
            field_value = (if webhook_secret c = []
                           then [CHR 0xE2, CHR 0x9D, CHR 0x8C] @ '' No''
                           else [CHR 0xE2, CHR 0x9C, CHR 0x85] @ '' Yes''),
            inline = True\<rparr>)"
proof -
  assume h: "(\<forall>e. env = Inl e \<longrightarrow> is_Exception e) \<or> webhook_url c = [] \<or> session c = None"
  show ?thesis
  proof (cases "webhook_url c = []")
    case True
    then have "fst (dashboard_status c now env) = Inr ()"
      "sent_embeds (snd (dashboard_status c now env)) = [status_embed c now]"
      by (simp_all add: dashboard_status_no_url)
    then show ?thesis using secret_field(1) [of c now] by blast
  next
    case url: False
    have "\<exists>v. fst (dashboard_status c now env) = Inr ()
        \<and> sent_embeds (snd (dashboard_status c now env)) =
            [add_field (status_embed c now) ''Connection Test'' v False]"
    proof (cases "session c")
      case None
      with url show ?thesis by (auto simp: dashboard_status_no_session)
    next
      case (Some s)
      show ?thesis
      proof (cases env)
        case (Inl e)
        with h url Some have "is_Exception e" by simp
        with url Some Inl show ?thesis
          by (auto simp: dashboard_status_exception)
      next
        case (Inr r)
        with url Some show ?thesis
          by (auto simp: dashboard_status_response)
      qed
    qed
    then obtain v where "fst (dashboard_status c now env) = Inr ()"
      "sent_embeds (snd (dashboard_status c now env)) =
         [add_field (status_embed c now) ''Connection Test'' v False]"
      by blast
    then show ?thesis
      using secret_field(2) [of c now "''Connection Test''" v False] by blast
  qed
qed

text \<open>
  C7. Unless the request of the connection test is broken off by a signal that is no
  \<open>Exception\<close>, \<open>dashboard_status\<close> returns normally and sends exactly one embed, whose
  second field is \<open>Secret Configured\<close>, with the value \<open>No\<close> (after the cross mark) when
  the secret is empty and \<open>Yes\<close> (after the check mark) otherwise; no embed that it sends
  has another second field. The whole result of the command, the embed and the request it
  makes, is the same for any two non-empty secrets: nothing of the secret but its being
  empty or not reaches the report.
\<close>

theorem dashboard_status_secret:
  "((\<forall>e. env = Inl e \<longrightarrow> is_Exception e) \<or> webhook_url c = [] \<or> session c = None \<longrightarrow>
      fst (dashboard_status c now env) = Inr ()
      \<and> (\<exists>em. sent_embeds (snd (dashboard_status c now env)) = [em]
           \<and> embed_fields em ! 1 =
          \<lparr>field_name = ''Secret Configured'',
            field_value = (if webhook_secret c = []
                           then [CHR 0xE2, CHR 0x9D, CHR 0x8C] @ '' No''
                           else [CHR 0xE2, CHR 0x9C, CHR 0x85] @ '' Yes''),
            inline = True\<rparr>))
   \<and> (\<forall>em. CtxSendEmbed em \<in> set (snd (dashboard_status c now env)) \<longrightarrow>
      embed_fields em ! 1 =
          \<lparr>field_name = ''Secret Configured'',
            field_value = (if webhook_secret c = []
                           then [CHR 0xE2, CHR 0x9D, CHR 0x8C] @ '' No''
                           else [CHR 0xE2, CHR 0x9C, CHR 0x85] @ '' Yes''),
            inline = True\<rparr>)
   \<and> (\<forall>s1 s2. s1 \<noteq> [] \<and> s2 \<noteq> [] \<longrightarrow>
        dashboard_status (c\<lparr>webhook_secret := s1\<rparr>) now env =
        dashboard_status (c\<lparr>webhook_secret := s2\<rparr>) now env)"
proof (intro conjI allI impI)
  assume "(\<forall>e. env = Inl e \<longrightarrow> is_Exception e) \<or> webhook_url c = [] \<or> session c = None"
  then show "fst (dashboard_status c now env) = Inr ()"
    using dashboard_status_sends [of env c now] by blast
next
  assume "(\<forall>e. env = Inl e \<longrightarrow> is_Exception e) \<or> webhook_url c = [] \<or> session c = None"
  then show "\<exists>em. sent_embeds (snd (dashboard_status c now env)) = [em]
           \<and> embed_fields em ! 1 =
          \<lparr>field_name = ''Secret Configured'',
            field_value = (if webhook_secret c = []
                           then [CHR 0xE2, CHR 0x9D, CHR 0x8C] @ '' No''
                           else [CHR 0xE2, CHR 0x9C, CHR 0x85] @ '' Yes''),
            inline = True\<rparr>"
    using dashboard_status_sends [of env c now] by blast
next
  fix em
  assume "CtxSendEmbed em \<in> set (snd (dashboard_status c now env))"
  then have "em = status_embed c now
     \<or> (\<exists>v. em = add_field (status_embed c now) ''Connection Test'' v False)"
    using dashboard_status_embed by blast
  then show "embed_fields em ! 1 =
          \<lparr>field_name = ''Secret Configured'',
            field_value = (if webhook_secret c = []
                           then [CHR 0xE2, CHR 0x9D, CHR 0x8C] @ '' No''
                           else [CHR 0xE2, CHR 0x9C, CHR 0x85] @ '' Yes''),
            inline = True\<rparr>"
    using secret_field by blast
next
  fix s1 s2 :: string
  assume "s1 \<noteq> [] \<and> s2 \<noteq> []"
  then show "dashboard_status (c\<lparr>webhook_secret := s1\<rparr>) now env =
        dashboard_status (c\<lparr>webhook_secret := s2\<rparr>) now env"
    using dashboard_status_secret_update by blast
qed

text \<open>
  The report of a loaded cog whose endpoint answers 200: without a secret, and with the
  secrets \<open>hunter2\<close> and \<open>correct horse\<close>.
\<close>

theorem dashboard_status_secret_witness:
  "map (\<lambda>em. embed_fields em ! 1)
       (sent_embeds (snd (dashboard_status loaded_cog 0 (Inr response_200_T1)))) =
     [\<lparr>field_name = ''Secret Configured'',
       field_value = [CHR 0xE2, CHR 0x9D, CHR 0x8C] @ '' No'', inline = True\<rparr>]
   \<and> map (\<lambda>em. embed_fields em ! 1)
       (sent_embeds (snd (dashboard_status (loaded_cog\<lparr>webhook_secret := ''hunter2''\<rparr>) 0
                           (Inr response_200_T1)))) =
     [\<lparr>field_name = ''Secret Configured'',
       field_value = [CHR 0xE2, CHR 0x9C, CHR 0x85] @ '' Yes'', inline = True\<rparr>]
   \<and> dashboard_status (loaded_cog\<lparr>webhook_secret := ''hunter2''\<rparr>) 0 (Inr response_200_T1) =
     dashboard_status (loaded_cog\<lparr>webhook_secret := ''correct horse''\<rparr>) 0 (Inr response_200_T1)"
proof -
  have e1: "webhook_secret loaded_cog = []"
    by (simp add: loaded_cog_def cog_load_def init_def config_get_def)
  obtain em where
    "sent_embeds (snd (dashboard_status loaded_cog 0 (Inr response_200_T1))) = [em]"
    "embed_fields em ! 1 =
       \<lparr>field_name = ''Secret Configured'',
        field_value = (if webhook_secret loaded_cog = []
                       then [CHR 0xE2, CHR 0x9D, CHR 0x8C] @ '' No''
                       else [CHR 0xE2, CHR 0x9C, CHR 0x85] @ '' Yes''),
        inline = True\<rparr>"
    using dashboard_status_secret [of "Inr response_200_T1" loaded_cog 0] by auto
  with e1 have c1: "map (\<lambda>em. embed_fields em ! 1)
       (sent_embeds (snd (dashboard_status loaded_cog 0 (Inr response_200_T1)))) =
     [\<lparr>field_name = ''Secret Configured'',
       field_value = [CHR 0xE2, CHR 0x9D, CHR 0x8C] @ '' No'', inline = True\<rparr>]"
    by simp
  obtain em' where
    "sent_embeds (snd (dashboard_status (loaded_cog\<lparr>webhook_secret := ''hunter2''\<rparr>) 0
                         (Inr response_200_T1))) = [em']"
    "embed_fields em' ! 1 =
       \<lparr>field_name = ''Secret Configured'',
        field_value = (if webhook_secret (loaded_cog\<lparr>webhook_secret := ''hunter2''\<rparr>) = []
                       then [CHR 0xE2, CHR 0x9D, CHR 0x8C] @ '' No''
                       else [CHR 0xE2, CHR 0x9C, CHR 0x85] @ '' Yes''),
        inline = True\<rparr>"
    using dashboard_status_secret
      [of "Inr response_200_T1" "loaded_cog\<lparr>webhook_secret := ''hunter2''\<rparr>" 0]
    by auto
  then have c2: "map (\<lambda>em. embed_fields em ! 1)
       (sent_embeds (snd (dashboard_status (loaded_cog\<lparr>webhook_secret := ''hunter2''\<rparr>) 0
                           (Inr response_200_T1)))) =
     [\<lparr>field_name = ''Secret Configured'',
       field_value = [CHR 0xE2, CHR 0x9C, CHR 0x85] @ '' Yes'', inline = True\<rparr>]"
    by simp
  have c3: "dashboard_status (loaded_cog\<lparr>webhook_secret := ''hunter2''\<rparr>) 0 (Inr response_200_T1) =
     dashboard_status (loaded_cog\<lparr>webhook_secret := ''correct horse''\<rparr>) 0 (Inr response_200_T1)"
    using dashboard_status_secret [of "Inr response_200_T1" loaded_cog 0] by simp
  from c1 c2 c3 show ?thesis by blast
qed

text \<open>
  C8, as stated, fails. Before \<open>cog_load\<close> the session is \<open>None\<close>: with the default
  endpoint configured, \<open>self.session.get\<close> raises \<open>AttributeError\<close> and no request is
  made. And \<open>replace\<close> rewrites every occurrence of \<open>/discord-modmail-webhook\<close>, not
  the suffix alone: for an endpoint with the path
  \<open>/discord-modmail-webhook/discord-modmail-webhook\<close> the probe goes to
  \<open>/health/health\<close>, not to \<open>/discord-modmail-webhook/health\<close>.
\<close>

theorem dashboard_status_probe_counterexample:
  "webhook_url (init Map.empty) = default_webhook_url
   \<and> default_webhook_url \<noteq> []
   \<and> http_calls (snd (dashboard_status (init Map.empty) 0 (Inr response_200_T1))) = []
   \<and> http_calls (snd (dashboard_status
        (loaded_cog\<lparr>webhook_url := ''https://h/discord-modmail-webhook/discord-modmail-webhook''\<rparr>)
        0 (Inr response_200_T1))) = [HttpGet ''https://h/health/health'' 5]"
proof -
  have a: "webhook_url (init Map.empty) = default_webhook_url"
    by (simp add: init_def config_get_def)
  have b: "default_webhook_url \<noteq> []" by (simp add: default_webhook_url_def)
  have c: "session (init Map.empty) = None" by (simp add: init_def)
  have d: "http_calls (snd (dashboard_status (init Map.empty) 0 (Inr response_200_T1))) = []"
    using a b c by (simp add: dashboard_status_no_session http_calls_def)
  have e: "session (loaded_cog\<lparr>webhook_url := ''https://h/discord-modmail-webhook/discord-modmail-webhook''\<rparr>)
      = Some \<lparr>closed = False\<rparr>"
    by (simp add: loaded_cog_def cog_load_def)
  have f: "http_calls (snd (dashboard_status
        (loaded_cog\<lparr>webhook_url := ''https://h/discord-modmail-webhook/discord-modmail-webhook''\<rparr>)
        0 (Inr response_200_T1))) = [HttpGet ''https://h/health/health'' 5]"
    using dashboard_status_one_get [OF _ e, of 0 "Inr response_200_T1"] health_url_twice
    by simp
  from a b d f show ?thesis by blast
qed

text \<open>
  C8, amended. Without an endpoint no request is made. With an endpoint and no session no
  request is made either, and the report shows the failure of the attribute access. With an
  endpoint and a session exactly one \<open>GET\<close> is made, with a timeout of 5, to the endpoint
  with every occurrence of \<open>/discord-modmail-webhook\<close> replaced by \<open>/health\<close>; the
  report then shows that the endpoint is reachable on status 200, the status on any other
  status, and the first 50 characters of the message of an exception of class
  \<open>Exception\<close>. The three texts differ. For an endpoint that ends with
  \<open>/discord-modmail-webhook\<close> and has no other occurrence of it, the target is the
  endpoint with that suffix replaced.
\<close>

theorem dashboard_status_probe:
  "(webhook_url c = [] \<longrightarrow> http_calls (snd (dashboard_status c now env)) = [])
   \<and> (webhook_url c \<noteq> [] \<and> session c = None \<longrightarrow>
        dashboard_status c now env =
          (Inr (),
           [CtxSendEmbed (add_field (status_embed c now) ''Connection Test''
              (failed_text (AttributeError ''NoneType'' ''get'')) False)]))
   \<and> (webhook_url c \<noteq> [] \<and> session c \<noteq> None \<longrightarrow>
        http_calls (snd (dashboard_status c now env)) =
          [HttpGet (py_replace (webhook_url c) ''/discord-modmail-webhook'' ''/health'') 5]
        \<and> (\<forall>r. env = Inr r \<and> status r = 200 \<longrightarrow>
              dashboard_status c now env =
                (Inr (),
                 [HttpGet (py_replace (webhook_url c) ''/discord-modmail-webhook'' ''/health'') 5,
                  CtxSendEmbed (add_field (status_embed c now) ''Connection Test''
                    reachable_text False)]))
        \<and> (\<forall>r. env = Inr r \<and> status r \<noteq> 200 \<longrightarrow>
              dashboard_status c now env =
                (Inr (),
                 [HttpGet (py_replace (webhook_url c) ''/discord-modmail-webhook'' ''/health'') 5,
                  CtxSendEmbed (add_field (status_embed c now) ''Connection Test''
                    (status_text (status r)) False)]))
        \<and> (\<forall>e. env = Inl e \<and> is_Exception e \<longrightarrow>
              dashboard_status c now env =
                (Inr (),
                 [HttpGet (py_replace (webhook_url c) ''/discord-modmail-webhook'' ''/health'') 5,
                  CtxSendEmbed (add_field (status_embed c now) ''Connection Test''
                    (failed_text e) False)])))
   \<and> (\<forall>n e. reachable_text \<noteq> status_text n \<and> reachable_text \<noteq> failed_text e
              \<and> status_text n \<noteq> failed_text e)
   \<and> (\<forall>base. webhook_url c = base @ ''/discord-modmail-webhook''
            \<and> (\<forall>i < length base.
                   take (length ''/discord-modmail-webhook'') (drop i (webhook_url c))
                     \<noteq> ''/discord-modmail-webhook'')
          \<longrightarrow> py_replace (webhook_url c) ''/discord-modmail-webhook'' ''/health''
                = base @ ''/health'')"
proof (intro conjI allI impI)
  assume "webhook_url c = []"
  then show "http_calls (snd (dashboard_status c now env)) = []"
    by (simp add: dashboard_status_no_url http_calls_def)
next
  assume "webhook_url c \<noteq> [] \<and> session c = None"
  then show "dashboard_status c now env =
          (Inr (),
           [CtxSendEmbed (add_field (status_embed c now) ''Connection Test''
              (failed_text (AttributeError ''NoneType'' ''get'')) False)])"
    by (simp add: dashboard_status_no_session)
next
  assume "webhook_url c \<noteq> [] \<and> session c \<noteq> None"
  then show "http_calls (snd (dashboard_status c now env)) =
          [HttpGet (py_replace (webhook_url c) ''/discord-modmail-webhook'' ''/health'') 5]"
    using dashboard_status_one_get [of c _ now env] by (auto simp: health_url_def)
next
  fix r
  assume "webhook_url c \<noteq> [] \<and> session c \<noteq> None" "env = Inr r \<and> status r = 200"
  then show "dashboard_status c now env =
                (Inr (),
                 [HttpGet (py_replace (webhook_url c) ''/discord-modmail-webhook'' ''/health'') 5,
                  CtxSendEmbed (add_field (status_embed c now) ''Connection Test''
                    reachable_text False)])"
    using dashboard_status_response [of c _ now r] by (auto simp: health_url_def)
next
  fix r
  assume "webhook_url c \<noteq> [] \<and> session c \<noteq> None" "env = Inr r \<and> status r \<noteq> 200"
  then show "dashboard_status c now env =
                (Inr (),
                 [HttpGet (py_replace (webhook_url c) ''/discord-modmail-webhook'' ''/health'') 5,
                  CtxSendEmbed (add_field (status_embed c now) ''Connection Test''
                    (status_text (status r)) False)])"
    using dashboard_status_response [of c _ now r] by (auto simp: health_url_def)
next
  fix e
  assume "webhook_url c \<noteq> [] \<and> session c \<noteq> None" "env = Inl e \<and> is_Exception e"
  then show "dashboard_status c now env =
                (Inr (),
                 [HttpGet (py_replace (webhook_url c) ''/discord-modmail-webhook'' ''/health'') 5,
                  CtxSendEmbed (add_field (status_embed c now) ''Connection Test''
                    (failed_text e) False)])"
    using dashboard_status_exception [of c _ e now] by (auto simp: health_url_def)
next
  fix n e
  show "reachable_text \<noteq> status_text n" "reachable_text \<noteq> failed_text e"
    "status_text n \<noteq> failed_text e"
    using probe_texts_distinct by blast+
next
  fix base
  assume h: "webhook_url c = base @ ''/discord-modmail-webhook''
            \<and> (\<forall>i < length base.
                   take (length ''/discord-modmail-webhook'') (drop i (webhook_url c))
                     \<noteq> ''/discord-modmail-webhook'')"
  then have "\<forall>i < length base.
      take (length ''/discord-modmail-webhook'') (drop i (base @ ''/discord-modmail-webhook''))
        \<noteq> ''/discord-modmail-webhook''"
    by metis
  then have "py_replace (base @ ''/discord-modmail-webhook'') ''/discord-modmail-webhook'' ''/health''
      = base @ ''/health''"
    using py_replace_suffix [of "''/discord-modmail-webhook''" base "''/health''"] by blast
  with h show "py_replace (webhook_url c) ''/discord-modmail-webhook'' ''/health''
                = base @ ''/health''"
    by simp
qed

text \<open>In \<open>https://h/discord-modmail-webhook\<close> the suffix is the only occurrence.\<close>

lemma short_url_no_other_occurrence:
  "\<forall>i < length ''https://h''.
     take (length ''/discord-modmail-webhook'') (drop i ''https://h/discord-modmail-webhook'')
       \<noteq> ''/discord-modmail-webhook''"
  by (simp add: eval_nat_numeral All_less_Suc)

text \<open>
  The default endpoint answering 200, answering 500 and refusing the connection; no
  endpoint; and the suffix of a short endpoint.
\<close>

theorem dashboard_status_probe_witness:
  "dashboard_status loaded_cog 0 (Inr response_200_T1) =
     (Inr (),
      [HttpGet ''https://qlnbergwjfrmgkjhrbkj.supabase.co/functions/v1/health'' 5,
       CtxSendEmbed (add_field (status_embed loaded_cog 0) ''Connection Test''
         reachable_text False)])
   \<and> dashboard_status loaded_cog 0 (Inr response_500_oops) =
     (Inr (),
      [HttpGet ''https://qlnbergwjfrmgkjhrbkj.supabase.co/functions/v1/health'' 5,
       CtxSendEmbed (add_field (status_embed loaded_cog 0) ''Connection Test''
         ([CHR 0xE2, CHR 0x9A, CHR 0xA0, CHR 0xEF, CHR 0xB8, CHR 0x8F] @ '' Status 500'') False)])
   \<and> dashboard_status loaded_cog 0 (Inl (Exn ClientError ''Cannot connect to host'')) =
     (Inr (),
      [HttpGet ''https://qlnbergwjfrmgkjhrbkj.supabase.co/functions/v1/health'' 5,
       CtxSendEmbed (add_field (status_embed loaded_cog 0) ''Connection Test''
         ([CHR 0xE2, CHR 0x9D, CHR 0x8C] @ '' Failed: Cannot connect to host'') False)])
   \<and> http_calls (snd (dashboard_status (loaded_cog\<lparr>webhook_url := []\<rparr>) 0
                           (Inr response_200_T1))) = []
   \<and> py_replace ''https://h/discord-modmail-webhook'' ''/discord-modmail-webhook'' ''/health''
       = ''https://h/health''"
proof -
  have u: "webhook_url loaded_cog = default_webhook_url" "session loaded_cog \<noteq> None"
    "default_webhook_url \<noteq> []"
    by (simp_all add: loaded_cog_def cog_load_def init_def config_get_def default_webhook_url_def)
  have hu: "py_replace default_webhook_url ''/discord-modmail-webhook'' ''/health'' =
      ''https://qlnbergwjfrmgkjhrbkj.supabase.co/functions/v1/health''"
    using health_url_default by (simp add: health_url_def)
  have s500: "str_int 500 = ''500''" by code_simp
  have c1: "dashboard_status loaded_cog 0 (Inr response_200_T1) =
     (Inr (),
      [HttpGet ''https://qlnbergwjfrmgkjhrbkj.supabase.co/functions/v1/health'' 5,
       CtxSendEmbed (add_field (status_embed loaded_cog 0) ''Connection Test''
         reachable_text False)])"
    using dashboard_status_probe [of loaded_cog 0 "Inr response_200_T1"] u hu
    by (simp add: response_200_T1_def)
  have c2: "dashboard_status loaded_cog 0 (Inr response_500_oops) =
     (Inr (),
      [HttpGet ''https://qlnbergwjfrmgkjhrbkj.supabase.co/functions/v1/health'' 5,
       CtxSendEmbed (add_field (status_embed loaded_cog 0) ''Connection Test''
         ([CHR 0xE2, CHR 0x9A, CHR 0xA0, CHR 0xEF, CHR 0xB8, CHR 0x8F] @ '' Status 500'') False)])"
    using dashboard_status_probe [of loaded_cog 0 "Inr response_500_oops"] u hu s500
    by (simp add: response_500_oops_def status_text_def)
  have c3: "dashboard_status loaded_cog 0 (Inl (Exn ClientError ''Cannot connect to host'')) =
     (Inr (),
      [HttpGet ''https://qlnbergwjfrmgkjhrbkj.supabase.co/functions/v1/health'' 5,
       CtxSendEmbed (add_field (status_embed loaded_cog 0) ''Connection Test''
         ([CHR 0xE2, CHR 0x9D, CHR 0x8C] @ '' Failed: Cannot connect to host'') False)])"
    using dashboard_status_probe
        [of loaded_cog 0 "Inl (Exn ClientError ''Cannot connect to host'')"] u hu
    by (simp add: failed_text_def is_Exception_def)
  have c4: "http_calls (snd (dashboard_status (loaded_cog\<lparr>webhook_url := []\<rparr>) 0
                           (Inr response_200_T1))) = []"
    using dashboard_status_probe [of "loaded_cog\<lparr>webhook_url := []\<rparr>" 0 "Inr response_200_T1"]
    by simp
  have c5: "py_replace ''https://h/discord-modmail-webhook'' ''/discord-modmail-webhook'' ''/health''
       = ''https://h/health''"
    using dashboard_status_probe
        [of "loaded_cog\<lparr>webhook_url := ''https://h/discord-modmail-webhook''\<rparr>" 0
            "Inr response_200_T1"]
      short_url_no_other_occurrence
    by simp
  from c1 c2 c3 c4 c5 show ?thesis by blast
qed

end
